theory Spec2Isabelle
  imports Main
begin

section \<open>Workday schedule to iCalendar conversion (src/src/App.jsx)\<close>

text \<open>
  A shallow embedding of the conversion engine of \<^verbatim>\<open>App.jsx\<close>: the field parsers
  (\<^verbatim>\<open>parseDate\<close>, \<^verbatim>\<open>parseTime\<close>, \<^verbatim>\<open>parseDays\<close>), the recurrence expander
  (\<^verbatim>\<open>expandOccurrences\<close>), the serializer (\<^verbatim>\<open>icsEscape\<close>, \<^verbatim>\<open>foldLines\<close>,
  \<^verbatim>\<open>buildICS\<close>) and the driver \<^verbatim>\<open>handleGenerate\<close>.

  Modelling conventions.
  \<^item> A JavaScript string is a \<open>string\<close>: a list of code units, each a \<open>char\<close>. Case
    mapping is that of the ASCII letters; white space (\<^verbatim>\<open>\s\<close>, \<^verbatim>\<open>trim\<close>) is the set of
    JavaScript white-space code units below 256.
  \<^item> \<^verbatim>\<open>undefined\<close> and \<^verbatim>\<open>null\<close> are \<open>None\<close>; an object used as a dictionary is a map
    \<open>string \<rightharpoonup> string\<close>.
  \<^item> A \<^verbatim>\<open>throw\<close> is the \<open>Inl\<close> of a sum, carrying the message.
  \<^item> A calendar date (a \<^verbatim>\<open>Date\<close> at local midnight) is the number of its day, counted
    from 1970-01-01; an instant is a number of seconds of local time counted from the
    same day. Local time has no daylight-saving jumps.
\<close>

subsection \<open>Strings of the runtime\<close>

abbreviation BSLASH :: char where "BSLASH \<equiv> CHR 0x5C"
abbreviation NEWLINE :: char where "NEWLINE \<equiv> CHR 0x0A"
abbreviation SPACE :: char where "SPACE \<equiv> CHR 0x20"

text \<open>The code units that \<^verbatim>\<open>\s\<close> and \<^verbatim>\<open>String.prototype.trim\<close> treat as white space.\<close>

definition isSpace :: "char \<Rightarrow> bool" where
  "isSpace c = ((of_char c :: nat) \<in> set [0x09, 0x0A, 0x0B, 0x0C, 0x0D, 0x20, 0xA0])"

definition isDigit :: "char \<Rightarrow> bool" where
  "isDigit c = (48 \<le> (of_char c :: nat) \<and> (of_char c :: nat) \<le> 57)"

definition isUpperAZ :: "char \<Rightarrow> bool" where
  "isUpperAZ c = (65 \<le> (of_char c :: nat) \<and> (of_char c :: nat) \<le> 90)"

definition isLowerAZ :: "char \<Rightarrow> bool" where
  "isLowerAZ c = (97 \<le> (of_char c :: nat) \<and> (of_char c :: nat) \<le> 122)"

text \<open>\<^verbatim>\<open>\w\<close>: a letter, a digit or the underscore.\<close>

definition isWord :: "char \<Rightarrow> bool" where
  "isWord c = (isUpperAZ c \<or> isLowerAZ c \<or> isDigit c \<or> c = CHR ''_'')"

definition upperChar :: "char \<Rightarrow> char" where
  "upperChar c = (if isLowerAZ c then char_of (of_char c - (32::nat)) else c)"

definition lowerChar :: "char \<Rightarrow> char" where
  "lowerChar c = (if isUpperAZ c then char_of (of_char c + (32::nat)) else c)"

definition toUpperCase :: "string \<Rightarrow> string" where
  "toUpperCase s = map upperChar s"

definition toLowerCase :: "string \<Rightarrow> string" where
  "toLowerCase s = map lowerChar s"

definition trim :: "string \<Rightarrow> string" where
  "trim s = rev (dropWhile isSpace (rev (dropWhile isSpace s)))"

text \<open>\<^verbatim>\<open>s.split(sep)\<close> for a separator of one code unit: never the empty list.\<close>

fun splitChar :: "char \<Rightarrow> string \<Rightarrow> string list" where
  "splitChar sep [] = [[]]"
| "splitChar sep (c # cs) =
     (if c = sep then [] # splitChar sep cs
      else (case splitChar sep cs of
              [] \<Rightarrow> [[c]]
            | l # ls \<Rightarrow> (c # l) # ls))"

text \<open>\<^verbatim>\<open>parts.join(sep)\<close>.\<close>

fun joinWith :: "string \<Rightarrow> string list \<Rightarrow> string" where
  "joinWith sep [] = []"
| "joinWith sep [x] = x"
| "joinWith sep (x # y # ys) = x @ sep @ joinWith sep (y # ys)"

text \<open>
  \<^verbatim>\<open>s.replace(/[...]/g, f)\<close> for a class of single code units: every code unit of the
  class is replaced by what \<open>f\<close> gives for it, the others are kept.
\<close>

definition replaceEach :: "(char \<Rightarrow> bool) \<Rightarrow> (char \<Rightarrow> string) \<Rightarrow> string \<Rightarrow> string" where
  "replaceEach P f s = concat (map (\<lambda>c. if P c then f c else [c]) s)"

text \<open>
  \<^verbatim>\<open>s.replace(/[...]+/g, r)\<close> for a class of single code units and a replacement \<open>r\<close> of
  one code unit: every maximal run of code units of the class becomes one \<open>r\<close>.
\<close>

function collapseRuns :: "(char \<Rightarrow> bool) \<Rightarrow> char \<Rightarrow> string \<Rightarrow> string" where
  "collapseRuns P r [] = []"
| "collapseRuns P r (c # cs) =
     (if P c then r # collapseRuns P r (dropWhile P cs) else c # collapseRuns P r cs)"
  by pat_completeness auto
termination
  by (relation "measure (\<lambda>(P, r, s). length s)") (auto simp: length_dropWhile_le less_Suc_eq_le)

text \<open>\<^verbatim>\<open>Number(digits)\<close> for a text of decimal digits, and the decimal text of a number.\<close>

definition digitVal :: "char \<Rightarrow> nat" where
  "digitVal c = of_char c - 48"

definition numberOf :: "string \<Rightarrow> nat" where
  "numberOf ds = foldl (\<lambda>n c. 10 * n + digitVal c) 0 ds"

definition digitChar :: "nat \<Rightarrow> char" where
  "digitChar d = char_of (48 + d)"

fun decimal :: "nat \<Rightarrow> string" where
  "decimal n = (if n < 10 then [digitChar n] else decimal (n div 10) @ [digitChar (n mod 10)])"

declare decimal.simps [simp del]

subsection \<open>The time parser: \<^verbatim>\<open>parseTime\<close>\<close>

text \<open>
  \<^verbatim>\<open>
  function parseTime(val) {
    if (!val && val !== 0) return null;
    let s = String(val).trim();
    if (!s) return null;
    s = s.toUpperCase();
    let m = s.match(/^(\d{1,2})(?::(\d{2}))?(?::(\d{2}))?\s*(AM|PM)?$/);
    if (m) {
      let h = Number(m[1]);
      const min = Number(m[2] || 0);
      const sec = Number(m[3] || 0);
      const ampm = m[4];
      if (ampm === "AM") { if (h === 12) h = 0; }
      else if (ampm === "PM") { if (h < 12) h += 12; }
      return { h, min, sec };
    }
    m = s.match(/^(\d{1,2}):(\d{2})(?::(\d{2}))?$/);
    if (m) {
      return { h: Number(m[1]), min: Number(m[2]), sec: Number(m[3] || 0) };
    }
    return null;
  }
  \<close>
  A cell of a row is a text or \<^verbatim>\<open>undefined\<close>, so \<open>val\<close> is a \<open>string option\<close>.
\<close>

record timeOfDay =
  tm_h :: nat
  tm_min :: nat
  tm_sec :: nat

text \<open>
  \<^verbatim>\<open>^(\d{1,2})\<close>: one or two digits, two when there are two. (Giving the second digit back
  never helps: nothing after the group in either pattern can match a digit.)
\<close>

definition leadDigits12 :: "string \<Rightarrow> (string \<times> string) option" where
  "leadDigits12 s =
     (case s of
        [] \<Rightarrow> None
      | c1 # r1 \<Rightarrow>
          if \<not> isDigit c1 then None
          else (case r1 of
                  [] \<Rightarrow> Some ([c1], [])
                | c2 # r2 \<Rightarrow> if isDigit c2 then Some ([c1, c2], r2) else Some ([c1], r1)))"

text \<open>
  \<^verbatim>\<open>(?::(\d{2}))?\<close>: a colon and two digits when they stand there, else nothing. (Skipping
  a group that matches never helps: what follows cannot match the colon, except the
  second such group, which then captures what the first would have.)
\<close>

definition colonDigits2 :: "string \<Rightarrow> string option \<times> string" where
  "colonDigits2 s =
     (case s of
        c0 # a # b # r \<Rightarrow>
          if c0 = CHR '':'' \<and> isDigit a \<and> isDigit b then (Some [a, b], r) else (None, s)
      | _ \<Rightarrow> (None, s))"

text \<open>The first pattern: the captures \<open>m[1]\<close>, \<open>m[2]\<close>, \<open>m[3]\<close>, \<open>m[4]\<close>, or no match.\<close>

definition matchTimeA ::
  "string \<Rightarrow> (string \<times> string option \<times> string option \<times> string option) option" where
  "matchTimeA s =
     (case leadDigits12 s of
        None \<Rightarrow> None
      | Some (m1, r1) \<Rightarrow>
          (case colonDigits2 r1 of (m2, r2) \<Rightarrow>
          (case colonDigits2 r2 of (m3, r3) \<Rightarrow>
            (let r4 = dropWhile isSpace r3 in
             if r4 = [] then Some (m1, m2, m3, None)
             else if r4 = ''AM'' \<or> r4 = ''PM'' then Some (m1, m2, m3, Some r4)
             else None))))"

text \<open>The second pattern: the captures \<open>m[1]\<close>, \<open>m[2]\<close>, \<open>m[3]\<close>, or no match.\<close>

definition matchTimeB :: "string \<Rightarrow> (string \<times> string \<times> string option) option" where
  "matchTimeB s =
     (case leadDigits12 s of
        None \<Rightarrow> None
      | Some (m1, r1) \<Rightarrow>
          (case colonDigits2 r1 of
             (None, _) \<Rightarrow> None
           | (Some m2, r2) \<Rightarrow>
               (case colonDigits2 r2 of (m3, r3) \<Rightarrow>
                  if r3 = [] then Some (m1, m2, m3) else None)))"

text \<open>\<^verbatim>\<open>Number(m[k] || 0)\<close>.\<close>

definition numberOr0 :: "string option \<Rightarrow> nat" where
  "numberOr0 m = (case m of None \<Rightarrow> 0 | Some ds \<Rightarrow> numberOf ds)"

definition parseTime :: "string option \<Rightarrow> timeOfDay option" where
  "parseTime val =
     (case val of
        None \<Rightarrow> None
      | Some v \<Rightarrow>
          if v = [] then None
          else (let s = trim v in
            if s = [] then None
            else (let s = toUpperCase s in
              (case matchTimeA s of
                 Some (m1, m2, m3, ampm) \<Rightarrow>
                   (let h = numberOf m1;
                        mn = numberOr0 m2;
                        sec = numberOr0 m3;
                        h = (if ampm = Some ''AM'' then (if h = 12 then 0 else h)
                             else if ampm = Some ''PM'' then (if h < 12 then h + 12 else h)
                             else h)
                    in Some \<lparr>tm_h = h, tm_min = mn, tm_sec = sec\<rparr>)
               | None \<Rightarrow>
                   (case matchTimeB s of
                      Some (m1, m2, m3) \<Rightarrow>
                        Some \<lparr>tm_h = numberOf m1, tm_min = numberOf m2, tm_sec = numberOr0 m3\<rparr>
                    | None \<Rightarrow> None)))))"

text \<open>The text of a two-digit field (minutes or seconds) holding the number \<open>m\<close>.\<close>

definition twoDigits :: "nat \<Rightarrow> string" where
  "twoDigits m = [digitChar (m div 10), digitChar (m mod 10)]"

text \<open>
  The meridiem a suffix of a time text stands for (\<open>m[4]\<close>), and the hour after the
  12-hour correction of the source, as the statements below use them.
\<close>

definition meridiemOf :: "string \<Rightarrow> string option" where
  "meridiemOf suffix = (if suffix = [] then None else Some (tl suffix))"

definition hourOf :: "nat \<Rightarrow> string option \<Rightarrow> nat" where
  "hourOf h ampm =
     (if ampm = Some ''AM'' then (if h = 12 then 0 else h)
      else if ampm = Some ''PM'' then (if h < 12 then h + 12 else h)
      else h)"

text \<open>The ranges of a time of day in the data model.\<close>

definition validTimeOfDay :: "timeOfDay \<Rightarrow> bool" where
  "validTimeOfDay t = (tm_h t \<le> 23 \<and> tm_min t \<le> 59 \<and> tm_sec t \<le> 59)"

subsection \<open>The weekday-pattern parser: \<^verbatim>\<open>parseDays\<close>\<close>

text \<open>
  \<^verbatim>\<open>
  const rep = [
    [/THURSDAYS?/, "R"], [/THURS?\b/, "R"], [/THU\b/, "R"], [/\bTH\b/, "R"],
    [/TUESDAYS?/, "TU"], [/TUES?\b/, "TU"], [/\bTUE\b/, "TU"], [/\bTU\b/, "TU"],
    [/MONDAYS?/, "MO"], [/\bMON\b/, "MO"], [/\bMO\b/, "MO"],
    [/WEDNESDAYS?/, "WE"], [/\bWED\b/, "WE"], [/\bWE\b/, "WE"],
    [/FRIDAYS?/, "FR"], [/\bFRI\b/, "FR"], [/\bFR\b/, "FR"],
    [/SATURDAYS?/, "SA"], [/\bSAT\b/, "SA"], [/\bSA\b/, "SA"],
    [/SUNDAYS?/, "SU"], [/\bSUN\b/, "SU"], [/\bSU\b/, "SU"],
  ];
  for (const [pattern, token] of rep) s = s.replace(pattern, token);
  \<close>
  Every pattern of the table has the shape: an optional \<^verbatim>\<open>\b\<close>, a literal, an optional
  \<^verbatim>\<open>S?\<close>, an optional \<^verbatim>\<open>\b\<close>. \<open>DayPattern lead lit optS trail\<close> is that shape. None has
  the \<^verbatim>\<open>g\<close> flag, so \<^verbatim>\<open>replace\<close> rewrites the leftmost match only.
\<close>

datatype dayPattern = DayPattern bool string bool bool

definition headOpt :: "string \<Rightarrow> char option" where
  "headOpt s = (case s of [] \<Rightarrow> None | c # _ \<Rightarrow> Some c)"

definition isWordOpt :: "char option \<Rightarrow> bool" where
  "isWordOpt a = (case a of None \<Rightarrow> False | Some c \<Rightarrow> isWord c)"

text \<open>\<^verbatim>\<open>\b\<close> between the code units \<open>a\<close> and \<open>b\<close> (\<open>None\<close> at an end of the text).\<close>

definition wordBoundary :: "char option \<Rightarrow> char option \<Rightarrow> bool" where
  "wordBoundary a b = (isWordOpt a \<noteq> isWordOpt b)"

text \<open>
  A match of the pattern that starts exactly here (\<open>prev\<close> is the code unit before, \<open>rest\<close>
  the text from here on): the length matched. \<^verbatim>\<open>S?\<close> is greedy: the match with the S is
  tried first, the one without it when that fails.
\<close>

definition matchAt :: "dayPattern \<Rightarrow> char option \<Rightarrow> string \<Rightarrow> nat option" where
  "matchAt p prev rest =
     (case p of DayPattern lead lit optS trail \<Rightarrow>
        if lead \<and> \<not> wordBoundary prev (headOpt rest) then None
        else if take (length lit) rest \<noteq> lit then None
        else (let r1 = drop (length lit) rest;
                  lastUnit = (if lit = [] then prev else Some (last lit))
              in if optS \<and> headOpt r1 = Some (CHR ''S'') \<and>
                    (if trail then wordBoundary (Some (CHR ''S'')) (headOpt (drop 1 r1)) else True)
                 then Some (length lit + 1)
                 else if (if trail then wordBoundary lastUnit (headOpt r1) else True)
                 then Some (length lit)
                 else None))"

text \<open>\<^verbatim>\<open>s.replace(pattern, token)\<close>: the scan for the leftmost match.\<close>

fun replaceFirstFrom :: "dayPattern \<Rightarrow> string \<Rightarrow> char option \<Rightarrow> string \<Rightarrow> string" where
  "replaceFirstFrom p tok prev [] =
     (case matchAt p prev [] of Some n \<Rightarrow> tok | None \<Rightarrow> [])"
| "replaceFirstFrom p tok prev (c # cs) =
     (case matchAt p prev (c # cs) of
        Some n \<Rightarrow> tok @ drop n (c # cs)
      | None \<Rightarrow> c # replaceFirstFrom p tok (Some c) cs)"

definition replaceFirst :: "dayPattern \<Rightarrow> string \<Rightarrow> string \<Rightarrow> string" where
  "replaceFirst p tok s = replaceFirstFrom p tok None s"

definition rep :: "(dayPattern \<times> string) list" where
  "rep =
    [(DayPattern False ''THURSDAY'' True False, ''R''), (DayPattern False ''THUR'' True True, ''R''),
     (DayPattern False ''THU'' False True, ''R''), (DayPattern True ''TH'' False True, ''R''),
     (DayPattern False ''TUESDAY'' True False, ''TU''), (DayPattern False ''TUE'' True True, ''TU''),
     (DayPattern True ''TUE'' False True, ''TU''), (DayPattern True ''TU'' False True, ''TU''),
     (DayPattern False ''MONDAY'' True False, ''MO''), (DayPattern True ''MON'' False True, ''MO''),
     (DayPattern True ''MO'' False True, ''MO''),
     (DayPattern False ''WEDNESDAY'' True False, ''WE''), (DayPattern True ''WED'' False True, ''WE''),
     (DayPattern True ''WE'' False True, ''WE''),
     (DayPattern False ''FRIDAY'' True False, ''FR''), (DayPattern True ''FRI'' False True, ''FR''),
     (DayPattern True ''FR'' False True, ''FR''),
     (DayPattern False ''SATURDAY'' True False, ''SA''), (DayPattern True ''SAT'' False True, ''SA''),
     (DayPattern True ''SA'' False True, ''SA''),
     (DayPattern False ''SUNDAY'' True False, ''SU''), (DayPattern True ''SUN'' False True, ''SU''),
     (DayPattern True ''SU'' False True, ''SU'')]"

definition normalizeDayNames :: "string \<Rightarrow> string" where
  "normalizeDayNames s = foldl (\<lambda>s (pattern, token). replaceFirst pattern token s) s rep"

text \<open>\<^verbatim>\<open>s.replace(/[,&/\\|]+/g, " ").replace(/\s+/g, " ").trim()\<close>.\<close>

definition isSeparator :: "char \<Rightarrow> bool" where
  "isSeparator c = (c \<in> set [CHR '','', CHR ''&'', CHR ''/'', BSLASH, CHR ''|''])"

definition normalizeSeparators :: "string \<Rightarrow> string" where
  "normalizeSeparators s = trim (collapseRuns isSpace SPACE (collapseRuns isSeparator SPACE s))"

text \<open>\<^verbatim>\<open>tokens.add(t)\<close> on a \<^verbatim>\<open>Set\<close>, kept in insertion order.\<close>

definition addToken :: "string \<Rightarrow> string list \<Rightarrow> string list" where
  "addToken t toks = (if t \<in> set toks then toks else toks @ [t])"

text \<open>
  \<^verbatim>\<open>
  for (let i=0; i<s.length; i++) {
    const c = s[i];
    if (c === 'T') {
      if (s.slice(i, i+2) === 'TU') { tokens.add('TU'); i++; continue; }
    }
    if (c === 'R') { tokens.add('R'); continue; }
    if (c === 'M') { tokens.add('MO'); continue; }
    if (c === 'W') { tokens.add('WE'); continue; }
    if (c === 'F') { tokens.add('FR'); continue; }
    if (c === 'S') {
      if (s.slice(i, i+2) === 'SA') { tokens.add('SA'); i++; continue; }
      if (s.slice(i, i+2) === 'SU') { tokens.add('SU'); i++; continue; }
    }
  }
  \<close>
  The scan of the compact form, on the text from index \<open>i\<close> on.
\<close>

fun scanCompact :: "string \<Rightarrow> string list \<Rightarrow> string list" where
  "scanCompact [] tokens = tokens"
| "scanCompact (c # cs) tokens =
     (if c = CHR ''T'' \<and> take 2 (c # cs) = ''TU'' then scanCompact (drop 1 cs) (addToken ''TU'' tokens)
      else if c = CHR ''R'' then scanCompact cs (addToken ''R'' tokens)
      else if c = CHR ''M'' then scanCompact cs (addToken ''MO'' tokens)
      else if c = CHR ''W'' then scanCompact cs (addToken ''WE'' tokens)
      else if c = CHR ''F'' then scanCompact cs (addToken ''FR'' tokens)
      else if c = CHR ''S'' \<and> take 2 (c # cs) = ''SA'' then scanCompact (drop 1 cs) (addToken ''SA'' tokens)
      else if c = CHR ''S'' \<and> take 2 (c # cs) = ''SU'' then scanCompact (drop 1 cs) (addToken ''SU'' tokens)
      else scanCompact cs tokens)"

text \<open>
  \<^verbatim>\<open>
  s.split(" ").forEach(tok => {
    tok = tok.trim(); if (!tok) return;
    if (tok === 'M') tok = 'MO';
    if (tok === 'T') tok = 'TU';
    if (tok === 'W') tok = 'WE';
    if (tok === 'TH') tok = 'R';
    if (tok === 'F') tok = 'FR';
    if (tok === 'R') tok = 'R';
    tokens.add(tok);
  });
  \<close>
\<close>

definition renameToken :: "string \<Rightarrow> string" where
  "renameToken tok =
     (let tok = (if tok = ''M'' then ''MO'' else tok);
          tok = (if tok = ''T'' then ''TU'' else tok);
          tok = (if tok = ''W'' then ''WE'' else tok);
          tok = (if tok = ''TH'' then ''R'' else tok);
          tok = (if tok = ''F'' then ''FR'' else tok);
          tok = (if tok = ''R'' then ''R'' else tok)
      in tok)"

definition splitTokens :: "string \<Rightarrow> string list" where
  "splitTokens s =
     foldl (\<lambda>tokens tok. let tok = trim tok in
                           if tok = [] then tokens else addToken (renameToken tok) tokens)
       [] (splitChar SPACE s)"

text \<open>The \<^verbatim>\<open>switch\<close>: Sunday is 0, Saturday is 6; any other token adds nothing.\<close>

definition dayNumber :: "string \<Rightarrow> nat option" where
  "dayNumber t =
     (if t = ''MO'' then Some 1 else if t = ''TU'' then Some 2 else if t = ''WE'' then Some 3
      else if t = ''R'' then Some 4 else if t = ''FR'' then Some 5 else if t = ''SA'' then Some 6
      else if t = ''SU'' then Some 0 else None)"

definition daysOfTokens :: "string list \<Rightarrow> nat set" where
  "daysOfTokens tokens =
     foldl (\<lambda>st t. case dayNumber t of Some n \<Rightarrow> insert n st | None \<Rightarrow> st) {} tokens"

definition parseDays :: "string option \<Rightarrow> nat set" where
  "parseDays val =
     (case val of
        None \<Rightarrow> {}
      | Some v \<Rightarrow>
          if v = [] then {}
          else (let s = trim v in
            if s = [] then {}
            else (let s = normalizeSeparators (normalizeDayNames (toUpperCase s));
                      tokens = (if SPACE \<notin> set s then scanCompact s [] else splitTokens s)
                  in daysOfTokens tokens)))"

subsection \<open>Calendar dates of the runtime\<close>

text \<open>
  \<^verbatim>\<open>d.getDay()\<close> of the day numbered \<open>d\<close>: Sunday is 0, and 1970-01-01 was a Thursday.
\<close>

definition getDay :: "int \<Rightarrow> nat" where
  "getDay d = nat ((d + 4) mod 7)"

text \<open>
  The number of the day \<open>y\<close>-\<open>m\<close>-\<open>d\<close> of the proleptic Gregorian calendar (\<open>m\<close> from 1 to
  12), and the year, month and day of a day number.
\<close>

definition daysFromCivil :: "int \<Rightarrow> int \<Rightarrow> int \<Rightarrow> int" where
  "daysFromCivil y m d =
     (let y1 = (if m \<le> 2 then y - 1 else y);
          era = y1 div 400;
          yoe = y1 - era * 400;
          mp = (if m > 2 then m - 3 else m + 9);
          doy = (153 * mp + 2) div 5 + d - 1;
          doe = yoe * 365 + yoe div 4 - yoe div 100 + doy
      in era * 146097 + doe - 719468)"

definition civilFromDays :: "int \<Rightarrow> int \<times> int \<times> int" where
  "civilFromDays z =
     (let z1 = z + 719468;
          era = z1 div 146097;
          doe = z1 - era * 146097;
          yoe = (doe - doe div 1460 + doe div 36524 - doe div 146096) div 365;
          doy = doe - (365 * yoe + yoe div 4 - yoe div 100);
          mp = (5 * doy + 2) div 153;
          d = doy - (153 * mp + 2) div 5 + 1;
          m = (if mp < 10 then mp + 3 else mp - 9);
          y = yoe + era * 400
      in (if m \<le> 2 then y + 1 else y, m, d))"

text \<open>
  \<^verbatim>\<open>new Date(year, monthIndex, day)\<close> as a day number: a year from 0 to 99 means 1900 +
  year, and a month index or a day out of range carries over.
\<close>

definition newDate :: "int \<Rightarrow> int \<Rightarrow> int \<Rightarrow> int" where
  "newDate year monthIndex day =
     (let yr = (if 0 \<le> year \<and> year \<le> 99 then 1900 + year else year)
      in daysFromCivil (yr + monthIndex div 12) (monthIndex mod 12 + 1) 1 + (day - 1))"

subsection \<open>The date parser: \<^verbatim>\<open>parseDate\<close>\<close>

text \<open>
  \<^verbatim>\<open>
  function parseDate(val) {
    if (!val && val !== 0) return null;
    if (val instanceof Date) return new Date(val.getFullYear(), val.getMonth(), val.getDate());
    const s = String(val).trim();
    if (!s) return null;
    const try1 = new Date(s);
    if (!isNaN(try1)) return new Date(try1.getFullYear(), try1.getMonth(), try1.getDate());
    const m = s.match(/^(\d{4})[-\/]?(\d{2})[-\/]?(\d{2})$/);
    if (m) {
      const [_, y, mo, d] = m;
      return new Date(Number(y), Number(mo)-1, Number(d));
    }
    return null;
  }
  \<close>
  The cells of a row are texts (the sheet is read with \<^verbatim>\<open>raw: false\<close>, the CSV reader
  builds texts), so the \<^verbatim>\<open>instanceof Date\<close> branch has no counterpart. What
  \<^verbatim>\<open>new Date(s)\<close> makes of a text is the runtime's business: \<open>dateOfText\<close> is a parameter,
  giving the local day of the instant read, or \<open>None\<close> for \<^verbatim>\<open>Invalid Date\<close>.
\<close>

definition optSeparator :: "string \<Rightarrow> string" where
  "optSeparator s =
     (case s of [] \<Rightarrow> [] | c # r \<Rightarrow> if c = CHR ''-'' \<or> c = CHR ''/'' then r else s)"

definition matchDate8 :: "string \<Rightarrow> (string \<times> string \<times> string) option" where
  "matchDate8 s =
     (case s of
        y1 # y2 # y3 # y4 # r1 \<Rightarrow>
          if isDigit y1 \<and> isDigit y2 \<and> isDigit y3 \<and> isDigit y4
          then (case optSeparator r1 of
                  m1 # m2 # r2 \<Rightarrow>
                    if isDigit m1 \<and> isDigit m2
                    then (case optSeparator r2 of
                            [d1, d2] \<Rightarrow>
                              if isDigit d1 \<and> isDigit d2
                              then Some ([y1, y2, y3, y4], [m1, m2], [d1, d2])
                              else None
                          | _ \<Rightarrow> None)
                    else None
                | _ \<Rightarrow> None)
          else None
      | _ \<Rightarrow> None)"

definition parseDate :: "(string \<Rightarrow> int option) \<Rightarrow> string option \<Rightarrow> int option" where
  "parseDate dateOfText val =
     (case val of
        None \<Rightarrow> None
      | Some v \<Rightarrow>
          if v = [] then None
          else (let s = trim v in
            if s = [] then None
            else (case dateOfText s of
                    Some try1 \<Rightarrow> Some try1
                  | None \<Rightarrow>
                      (case matchDate8 s of
                         Some (y, mo, d) \<Rightarrow>
                           Some (newDate (int (numberOf y)) (int (numberOf mo) - 1) (int (numberOf d)))
                       | None \<Rightarrow> None))))"

subsection \<open>The recurrence expander: \<^verbatim>\<open>expandOccurrences\<close>\<close>

text \<open>
  \<^verbatim>\<open>
  function expandOccurrences(startDate, endDate, daySet) {
    const out = [];
    if (!startDate || !endDate) return out;
    const d = new Date(startDate.getFullYear(), startDate.getMonth(), startDate.getDate());
    const end = new Date(endDate.getFullYear(), endDate.getMonth(), endDate.getDate());
    while (d <= end) {
      if (daySet.has(d.getDay())) out.push(new Date(d));
      d.setDate(d.getDate() + 1);
    }
    return out;
  }
  \<close>
  \<open>d\<close> and \<open>end\<close> are the days of \<open>startDate\<close> and \<open>endDate\<close> themselves; \<^verbatim>\<open>setDate\<close>
  moves \<open>d\<close> to the next day.
\<close>

function expandLoop :: "int \<Rightarrow> int \<Rightarrow> nat set \<Rightarrow> int list \<Rightarrow> int list" where
  "expandLoop d end' daySet out =
     (if d \<le> end'
      then expandLoop (d + 1) end' daySet (if getDay d \<in> daySet then out @ [d] else out)
      else out)"
  by pat_completeness auto
termination
  by (relation "measure (\<lambda>(d, end', daySet, out). nat (end' - d + 1))") auto

declare expandLoop.simps [simp del]

definition expandOccurrences :: "int option \<Rightarrow> int option \<Rightarrow> nat set \<Rightarrow> int list" where
  "expandOccurrences startDate endDate daySet =
     (case startDate of
        None \<Rightarrow> []
      | Some d \<Rightarrow>
          (case endDate of
             None \<Rightarrow> []
           | Some end' \<Rightarrow> expandLoop d end' daySet []))"

subsection \<open>Text escaping: \<^verbatim>\<open>icsEscape\<close>\<close>

text \<open>
  \<^verbatim>\<open>
  function icsEscape(s) {
    return (s || "")
      .replace(/\\/g, "\\\\")
      .replace(/\n/g, "\\n")
      .replace(/[,;]/g, (m) => `\\${m}`);
  }
  \<close>
  Three passes over the text, in this order.
\<close>

definition icsEscape :: "string \<Rightarrow> string" where
  "icsEscape s =
     replaceEach (\<lambda>c. c = CHR '','' \<or> c = CHR '';'') (\<lambda>m. [BSLASH, m])
       (replaceEach (\<lambda>c. c = NEWLINE) (\<lambda>_. [BSLASH, CHR ''n''])
          (replaceEach (\<lambda>c. c = BSLASH) (\<lambda>_. [BSLASH, BSLASH]) s))"

text \<open>One code unit through the three passes.\<close>

definition escapeUnit :: "char \<Rightarrow> string" where
  "escapeUnit c =
     (if c = BSLASH then [BSLASH, BSLASH]
      else if c = NEWLINE then [BSLASH, CHR ''n'']
      else if c = CHR '','' \<or> c = CHR '';'' then [BSLASH, c]
      else [c])"

text \<open>
  The inverse of the escaping rule, written from the specification's words (the repository
  has no un-escaping function): a backslash followed by \<open>n\<close> is a newline, a backslash
  followed by any other code unit is that code unit.
\<close>

fun icsUnescape :: "string \<Rightarrow> string" where
  "icsUnescape [] = []"
| "icsUnescape [c] = [c]"
| "icsUnescape (c # d # cs) =
     (if c = BSLASH then (if d = CHR ''n'' then NEWLINE else d) # icsUnescape cs
      else c # icsUnescape (d # cs))"

subsection \<open>Line folding: \<^verbatim>\<open>foldLines\<close>\<close>

text \<open>
  \<^verbatim>\<open>
  function foldLines(text) {
    // 75 octets per RFC 5545. This naive wrapper works for ASCII
    const lines = text.split("\n");
    const out = [];
    for (const ln of lines) {
      if (ln.length <= 75) { out.push(ln); continue; }
      let i = 0; const L = ln.length;
      while (i < L) {
        const chunk = ln.slice(i, i+75);
        out.push(i === 0 ? chunk : " " + chunk);
        i += 75;
      }
    }
    return out.join("\n");
  }
  \<close>
\<close>

text \<open>The \<^verbatim>\<open>while\<close> loop, from index \<open>i\<close>: the physical lines it pushes.\<close>

function foldChunks :: "nat \<Rightarrow> string \<Rightarrow> string list" where
  "foldChunks i ln =
     (if i < length ln
      then (let chunk = take 75 (drop i ln)
            in (if i = 0 then chunk else SPACE # chunk) # foldChunks (i + 75) ln)
      else [])"
  by pat_completeness auto
termination
  by (relation "measure (\<lambda>(i, ln). length ln - i)") auto

declare foldChunks.simps [simp del]

text \<open>The body of the \<^verbatim>\<open>for\<close> loop: the physical lines of one line of the text.\<close>

definition foldLine :: "string \<Rightarrow> string list" where
  "foldLine ln = (if length ln \<le> 75 then [ln] else foldChunks 0 ln)"

definition foldLines :: "string \<Rightarrow> string" where
  "foldLines txt = joinWith [NEWLINE] (concat (map foldLine (splitChar NEWLINE txt)))"

text \<open>
  Unfolding, written from the specification's words: one leading space is stripped from
  every continuation line (every physical line but the first), and the lines are
  concatenated.
\<close>

definition unfoldLines :: "string list \<Rightarrow> string" where
  "unfoldLines ls = (case ls of [] \<Rightarrow> [] | l # rest \<Rightarrow> l @ concat (map (drop 1) rest))"

text \<open>The physical lines of a rendered text, and the 75-unit limit on each.\<close>

definition physicalLines :: "string \<Rightarrow> string list" where
  "physicalLines txt = splitChar NEWLINE txt"

definition withinLimit :: "string list \<Rightarrow> bool" where
  "withinLimit ls = list_all (\<lambda>ln. length ln \<le> 75) ls"

subsection \<open>Instants and their rendering\<close>

text \<open>
  \<^verbatim>\<open>
  function combineDateTime(date, t) {
    const d = new Date(date.getFullYear(), date.getMonth(), date.getDate(), t.h, t.min, t.sec || 0);
    return d;
  }
  \<close>
  An instant is a number of seconds of local time; hours, minutes and seconds out of range
  carry over, as the \<^verbatim>\<open>Date\<close> constructor has it.
\<close>

definition combineDateTime :: "int \<Rightarrow> timeOfDay \<Rightarrow> int" where
  "combineDateTime date t =
     date * 86400 + int (tm_h t) * 3600 + int (tm_min t) * 60 + int (tm_sec t)"

definition getFullYear :: "int \<Rightarrow> int" where
  "getFullYear dt = fst (civilFromDays (dt div 86400))"

definition getMonth :: "int \<Rightarrow> int" where
  "getMonth dt = fst (snd (civilFromDays (dt div 86400))) - 1"

definition getDate :: "int \<Rightarrow> int" where
  "getDate dt = snd (snd (civilFromDays (dt div 86400)))"

definition getHours :: "int \<Rightarrow> int" where
  "getHours dt = (dt mod 86400) div 3600"

definition getMinutes :: "int \<Rightarrow> int" where
  "getMinutes dt = (dt mod 3600) div 60"

definition getSeconds :: "int \<Rightarrow> int" where
  "getSeconds dt = dt mod 60"

text \<open>\<^verbatim>\<open>String(n)\<close> of an integer and \<^verbatim>\<open>String(n).padStart(2, "0")\<close>.\<close>

definition stringOfInt :: "int \<Rightarrow> string" where
  "stringOfInt n = (if n < 0 then CHR ''-'' # decimal (nat (- n)) else decimal (nat n))"

definition pad :: "int \<Rightarrow> string" where
  "pad n = (let s = stringOfInt n in replicate (2 - length s) (CHR ''0'') @ s)"

text \<open>
  \<^verbatim>\<open>icsDateTimeLocal(dt)\<close> and \<^verbatim>\<open>icsDateTimeUTC(dt)\<close>: the same digits, read off the local
  and the UTC fields of the instant; the second ends in \<^verbatim>\<open>Z\<close>.
\<close>

definition icsDateTimeLocal :: "int \<Rightarrow> string" where
  "icsDateTimeLocal dt =
     stringOfInt (getFullYear dt) @ pad (getMonth dt + 1) @ pad (getDate dt) @ ''T'' @
     pad (getHours dt) @ pad (getMinutes dt) @ pad (getSeconds dt)"

definition icsDateTimeUTC :: "int \<Rightarrow> string" where
  "icsDateTimeUTC dt =
     stringOfInt (getFullYear dt) @ pad (getMonth dt + 1) @ pad (getDate dt) @ ''T'' @
     pad (getHours dt) @ pad (getMinutes dt) @ pad (getSeconds dt) @ ''Z''"

subsection \<open>The serializer: \<^verbatim>\<open>buildICS\<close>\<close>

text \<open>
  \<^verbatim>\<open>
  function buildICS(events, calName, tzHint) {
    const now = new Date();
    let ics = "BEGIN:VCALENDAR\n" +
              "VERSION:2.0\n" +
              "CALSCALE:GREGORIAN\n" +
              "PRODID:-//GistTools//Workday Excel to iCal//EN\n" +
              (calName ? `X-WR-CALNAME:${icsEscape(calName)}\n` : "") +
              (tzHint ? `X-WR-TIMEZONE:${icsEscape(tzHint)}\n` : "");
    for (const ev of events) {
      const uid = `${Math.random().toString(36).slice(2)}@gisttools.local`;
      ics += foldLines(
        "BEGIN:VEVENT\n" +
        `UID:${uid}\n` +
        `DTSTAMP:${icsDateTimeUTC(now)}\n` +
        `DTSTART:${icsDateTimeLocal(ev.dtStart)}\n` +
        `DTEND:${icsDateTimeLocal(ev.dtEnd)}\n` +
        (ev.summary ? `SUMMARY:${icsEscape(ev.summary)}\n` : "") +
        (ev.location ? `LOCATION:${icsEscape(ev.location)}\n` : "") +
        (ev.description ? `DESCRIPTION:${icsEscape(ev.description)}\n` : "") +
        "END:VEVENT"
      ) + "\n";
    }
    ics += "END:VCALENDAR\n";
    return ics;
  }
  \<close>
  The clock and the random source are the runtime's: \<open>now\<close> is the instant read from the
  clock, \<open>rnd k\<close> the text \<^verbatim>\<open>Math.random().toString(36).slice(2)\<close> of the \<open>k\<close>-th draw.
\<close>

record event =
  summary :: string
  location :: string
  description :: string
  dtStart :: int
  dtEnd :: int

definition eventBlock :: "int \<Rightarrow> string \<Rightarrow> event \<Rightarrow> string" where
  "eventBlock now uid ev =
     ''BEGIN:VEVENT'' @ [NEWLINE] @
     ''UID:'' @ uid @ [NEWLINE] @
     ''DTSTAMP:'' @ icsDateTimeUTC now @ [NEWLINE] @
     ''DTSTART:'' @ icsDateTimeLocal (dtStart ev) @ [NEWLINE] @
     ''DTEND:'' @ icsDateTimeLocal (dtEnd ev) @ [NEWLINE] @
     (if summary ev \<noteq> [] then ''SUMMARY:'' @ icsEscape (summary ev) @ [NEWLINE] else []) @
     (if location ev \<noteq> [] then ''LOCATION:'' @ icsEscape (location ev) @ [NEWLINE] else []) @
     (if description ev \<noteq> [] then ''DESCRIPTION:'' @ icsEscape (description ev) @ [NEWLINE] else []) @
     ''END:VEVENT''"

text \<open>The \<^verbatim>\<open>for\<close> loop over the events; \<open>k\<close> counts the draws of the random source.\<close>

fun eventsLoop :: "int \<Rightarrow> (nat \<Rightarrow> string) \<Rightarrow> nat \<Rightarrow> event list \<Rightarrow> string \<Rightarrow> string" where
  "eventsLoop now rnd k [] ics = ics"
| "eventsLoop now rnd k (ev # evs) ics =
     eventsLoop now rnd (k + 1) evs
       (ics @ foldLines (eventBlock now (rnd k @ ''@gisttools.local'') ev) @ [NEWLINE])"

definition icsHeader :: "string \<Rightarrow> string \<Rightarrow> string" where
  "icsHeader calName tzHint =
     ''BEGIN:VCALENDAR'' @ [NEWLINE] @
     ''VERSION:2.0'' @ [NEWLINE] @
     ''CALSCALE:GREGORIAN'' @ [NEWLINE] @
     ''PRODID:-//GistTools//Workday Excel to iCal//EN'' @ [NEWLINE] @
     (if calName \<noteq> [] then ''X-WR-CALNAME:'' @ icsEscape calName @ [NEWLINE] else []) @
     (if tzHint \<noteq> [] then ''X-WR-TIMEZONE:'' @ icsEscape tzHint @ [NEWLINE] else [])"

definition buildICS :: "int \<Rightarrow> (nat \<Rightarrow> string) \<Rightarrow> event list \<Rightarrow> string \<Rightarrow> string \<Rightarrow> string" where
  "buildICS now rnd events calName tzHint =
     eventsLoop now rnd 0 events (icsHeader calName tzHint) @ ''END:VCALENDAR'' @ [NEWLINE]"

subsection \<open>The file name: \<^verbatim>\<open>sanitizeFileName\<close>\<close>

text \<open>
  \<^verbatim>\<open>
  function sanitizeFileName(s) {
    return s.replace(/[^a-z0-9-_]+/gi, "-").replace(/-+/g, "-").replace(/^-|-$/g, "").toLowerCase();
  }
  \<close>
\<close>

definition isNameUnit :: "char \<Rightarrow> bool" where
  "isNameUnit c = (isLowerAZ c \<or> isUpperAZ c \<or> isDigit c \<or> c = CHR ''-'' \<or> c = CHR ''_'')"

definition stripHyphens :: "string \<Rightarrow> string" where
  "stripHyphens s =
     (let s1 = (case s of [] \<Rightarrow> [] | c # r \<Rightarrow> if c = CHR ''-'' then r else s)
      in if s1 \<noteq> [] \<and> last s1 = CHR ''-'' then butlast s1 else s1)"

definition sanitizeFileName :: "string \<Rightarrow> string" where
  "sanitizeFileName s =
     toLowerCase (stripHyphens
       (collapseRuns (\<lambda>c. c = CHR ''-'') (CHR ''-'')
          (collapseRuns (\<lambda>c. \<not> isNameUnit c) (CHR ''-'') s)))"

subsection \<open>Token substitution: \<^verbatim>\<open>String.prototype.replaceAll\<close>\<close>

text \<open>
  \<^verbatim>\<open>template.replaceAll(search, replacement)\<close> with a text to search for: the occurrences
  are found from left to right without overlap, and each is replaced by the expansion of
  the replacement text, in which \<^verbatim>\<open>$$\<close> is a dollar sign, \<^verbatim>\<open>$&\<close> the matched text,
  \<^verbatim>\<open>$`\<close> the text before the match and \<^verbatim>\<open>$'\<close> the text after it (there are no capture
  groups, so every other \<^verbatim>\<open>$\<close> stands for itself).
\<close>

fun getSubstitution :: "string \<Rightarrow> string \<Rightarrow> string \<Rightarrow> string \<Rightarrow> string" where
  "getSubstitution matched pre post [] = []"
| "getSubstitution matched pre post [c] = [c]"
| "getSubstitution matched pre post (c # d # r) =
     (if c = CHR ''$'' \<and> d = CHR ''$'' then CHR ''$'' # getSubstitution matched pre post r
      else if c = CHR ''$'' \<and> d = CHR ''&'' then matched @ getSubstitution matched pre post r
      else if c = CHR ''$'' \<and> d = CHR 0x60 then pre @ getSubstitution matched pre post r
      else if c = CHR ''$'' \<and> d = CHR 0x27 then post @ getSubstitution matched pre post r
      else c # getSubstitution matched pre post (d # r))"

text \<open>
  The scan from a position of the text: \<open>pre\<close> is the text before the position, \<open>skip\<close>
  the number of code units of a match still to pass over. The text searched for is not
  empty (it is one of the three tokens).
\<close>

fun replaceAllFrom :: "string \<Rightarrow> string \<Rightarrow> string \<Rightarrow> nat \<Rightarrow> string \<Rightarrow> string" where
  "replaceAllFrom search replacement pre skip [] = []"
| "replaceAllFrom search replacement pre skip (c # cs) =
     (if skip > 0 then replaceAllFrom search replacement (pre @ [c]) (skip - 1) cs
      else if take (length search) (c # cs) = search
      then getSubstitution search pre (drop (length search) (c # cs)) replacement @
           replaceAllFrom search replacement (pre @ [c]) (length search - 1) cs
      else c # replaceAllFrom search replacement (pre @ [c]) 0 cs)"

definition replaceAll :: "string \<Rightarrow> string \<Rightarrow> string \<Rightarrow> string" where
  "replaceAll search replacement s = replaceAllFrom search replacement [] 0 s"

subsection \<open>The driver: \<^verbatim>\<open>handleGenerate\<close>\<close>

text \<open>
  \<^verbatim>\<open>mapped\<close> and every row are objects used as dictionaries. \<^verbatim>\<open>!mapped[k]\<close> holds when the
  key is missing or mapped to the empty text.
\<close>

definition truthy :: "string option \<Rightarrow> bool" where
  "truthy v = (case v of None \<Rightarrow> False | Some s \<Rightarrow> s \<noteq> [])"

text \<open>\<^verbatim>\<open>row[mapped.k]\<close>: a missing mapping looks up the property named \<^verbatim>\<open>undefined\<close>.\<close>

definition cellAt :: "(string \<rightharpoonup> string) \<Rightarrow> string option \<Rightarrow> string option" where
  "cellAt row key = row (case key of None \<Rightarrow> ''undefined'' | Some k \<Rightarrow> k)"

text \<open>\<^verbatim>\<open>String(cell ?? "").trim()\<close>.\<close>

definition trimmedText :: "string option \<Rightarrow> string" where
  "trimmedText cell = trim (case cell of None \<Rightarrow> [] | Some v \<Rightarrow> v)"

definition req :: "string list" where
  "req = [''startDateField'', ''endDateField'', ''startTimeField'', ''endTimeField'', ''daysField'']"

definition labelTable :: "(string \<times> string) list" where
  "labelTable =
    [(''titleField'', ''Title field''), (''courseField'', ''Course''),
     (''componentField'', ''Component''), (''sectionField'', ''Section''),
     (''startDateField'', ''Start date''), (''endDateField'', ''End date''),
     (''startTimeField'', ''Start time''), (''endTimeField'', ''End time''),
     (''daysField'', ''Days pattern''), (''locationField'', ''Location''),
     (''descField'', ''Description'')]"

definition labelForKey :: "string \<Rightarrow> string" where
  "labelForKey k = (case map_of labelTable k of None \<Rightarrow> k | Some l \<Rightarrow> if l = [] then k else l)"

text \<open>
  \<^verbatim>\<open>
  let summary = "";
  if (mapped.titleField) {
    summary = String(row[mapped.titleField] ?? "").trim();
  } else {
    summary = titleTemplate
      .replaceAll("{Course}", String(row[mapped.courseField] ?? "").trim())
      .replaceAll("{Component}", String(row[mapped.componentField] ?? "").trim())
      .replaceAll("{Section}", String(row[mapped.sectionField] ?? "").trim())
      .replace(/\s+/g, " ")
      .trim();
  }
  if (!summary) summary = "Class";
  \<close>
\<close>

definition buildTitle :: "(string \<rightharpoonup> string) \<Rightarrow> string \<Rightarrow> (string \<rightharpoonup> string) \<Rightarrow> string" where
  "buildTitle mapped titleTemplate row =
     (let summary =
        (if truthy (mapped ''titleField'')
         then trimmedText (cellAt row (mapped ''titleField''))
         else trim (collapseRuns isSpace SPACE
                (replaceAll ''{Section}'' (trimmedText (cellAt row (mapped ''sectionField'')))
                  (replaceAll ''{Component}'' (trimmedText (cellAt row (mapped ''componentField'')))
                    (replaceAll ''{Course}'' (trimmedText (cellAt row (mapped ''courseField'')))
                       titleTemplate)))))
      in if summary = [] then ''Class'' else summary)"

text \<open>
  The body of \<^verbatim>\<open>rows.forEach\<close> inside its \<^verbatim>\<open>try\<close>: the events of one row, or the message
  thrown.
\<close>

definition processRow ::
  "(string \<Rightarrow> int option) \<Rightarrow> (string \<rightharpoonup> string) \<Rightarrow> string \<Rightarrow> (string \<rightharpoonup> string) \<Rightarrow> string + event list" where
  "processRow dateOfText mapped titleTemplate row =
     (let startDate = parseDate dateOfText (cellAt row (mapped ''startDateField''));
          endDate = parseDate dateOfText (cellAt row (mapped ''endDateField''));
          startTime = parseTime (cellAt row (mapped ''startTimeField''));
          endTime = parseTime (cellAt row (mapped ''endTimeField''));
          days = parseDays (cellAt row (mapped ''daysField''))
      in case (startDate, endDate, startTime, endTime) of
           (Some sd, Some ed, Some st, Some et) \<Rightarrow>
             if days = {} then Inl ''Could not parse one of date, time, or days''
             else (let title = buildTitle mapped titleTemplate row;
                       loc = (if truthy (mapped ''locationField'')
                              then trimmedText (cellAt row (mapped ''locationField'')) else []);
                       descr = (if truthy (mapped ''descField'')
                                then trimmedText (cellAt row (mapped ''descField'')) else []);
                       occurrences = expandOccurrences startDate endDate days
                   in Inr (map (\<lambda>d. \<lparr>summary = title, location = loc, description = descr,
                                        dtStart = combineDateTime d st,
                                        dtEnd = combineDateTime d et\<rparr>) occurrences))
         | _ \<Rightarrow> Inl ''Could not parse one of date, time, or days'')"

text \<open>
  \<^verbatim>\<open>rows.forEach((row, idx) => { try { ... } catch (e) { errors.push({ idx: idx + 1,
  error: e.message || String(e) }); } })\<close>: the two lists after the rows from index \<open>idx\<close>.
\<close>

fun rowsLoop ::
  "((string \<rightharpoonup> string) \<Rightarrow> string + event list) \<Rightarrow> (string \<rightharpoonup> string) list \<Rightarrow> nat \<Rightarrow>
     event list \<Rightarrow> (nat \<times> string) list \<Rightarrow> event list \<times> (nat \<times> string) list" where
  "rowsLoop body [] idx events errors = (events, errors)"
| "rowsLoop body (row # rows) idx events errors =
     (case body row of
        Inl msg \<Rightarrow> rowsLoop body rows (idx + 1) events (errors @ [(idx + 1, msg)])
      | Inr evs \<Rightarrow> rowsLoop body rows (idx + 1) (events @ evs) errors)"

text \<open>
  What a successful run hands over: the text and the name given to \<^verbatim>\<open>downloadText\<close>, the
  message given to \<^verbatim>\<open>setInfo\<close>, and the row errors (given to \<^verbatim>\<open>console.warn\<close> when there
  are any). A failed run is the message given to \<^verbatim>\<open>setError\<close>.
\<close>

record generated =
  g_ics :: string
  g_name :: string
  g_info :: string
  g_events :: "event list"
  g_errors :: "(nat \<times> string) list"

record runtime =
  rt_dateOfText :: "string \<Rightarrow> int option"
  rt_now :: int
  rt_rnd :: "nat \<Rightarrow> string"

record uiState =
  st_rows :: "(string \<rightharpoonup> string) list"
  st_mapped :: "string \<rightharpoonup> string"
  st_titleTemplate :: string
  st_calendarName :: string
  st_timezone :: string

definition handleGenerate :: "runtime \<Rightarrow> uiState \<Rightarrow> string + generated" where
  "handleGenerate rt st =
     (case find (\<lambda>k. \<not> truthy (st_mapped st k)) req of
        Some k \<Rightarrow> Inl (''Missing required mapping: '' @ labelForKey k)
      | None \<Rightarrow>
          (case rowsLoop (processRow (rt_dateOfText rt) (st_mapped st) (st_titleTemplate st))
                  (st_rows st) 0 [] [] of
             (events, errors) \<Rightarrow>
               if events = [] then Inl ''No events generated. Check mappings and data.''
               else Inr \<lparr>g_ics = buildICS (rt_now rt) (rt_rnd rt) events (st_calendarName st) (st_timezone st),
                         g_name = sanitizeFileName (if st_calendarName st = [] then ''schedule''
                                                    else st_calendarName st) @ ''.ics'',
                         g_info = ''Generated '' @ decimal (length events) @ '' events. '' @
                                  (if errors \<noteq> [] then ''Rows with issues: '' @ decimal (length errors)
                                   else ''All rows parsed.''),
                         g_events = events,
                         g_errors = errors\<rparr>))"

subsection \<open>Notions used in the statements about the driver\<close>

text \<open>The message thrown for a row that cannot be parsed.\<close>

definition parseFailure :: string where
  "parseFailure = ''Could not parse one of date, time, or days''"

text \<open>
  The condition of the \<^verbatim>\<open>throw\<close> in the row body: a date or a time is \<^verbatim>\<open>null\<close>, or the
  weekday set is empty.
\<close>

definition rowFails :: "(string \<Rightarrow> int option) \<Rightarrow> (string \<rightharpoonup> string) \<Rightarrow> (string \<rightharpoonup> string) \<Rightarrow> bool" where
  "rowFails dateOfText mapped row =
     (parseDate dateOfText (cellAt row (mapped ''startDateField'')) = None \<or>
      parseDate dateOfText (cellAt row (mapped ''endDateField'')) = None \<or>
      parseTime (cellAt row (mapped ''startTimeField'')) = None \<or>
      parseTime (cellAt row (mapped ''endTimeField'')) = None \<or>
      parseDays (cellAt row (mapped ''daysField'')) = {})"

text \<open>
  What a row adds to \<open>events\<close> and what the rows add to \<open>errors\<close> (positions count from
  1), for a row body \<open>body\<close>.
\<close>

definition rowEvents :: "((string \<rightharpoonup> string) \<Rightarrow> string + event list) \<Rightarrow> (string \<rightharpoonup> string) \<Rightarrow> event list" where
  "rowEvents body row = (case body row of Inl msg \<Rightarrow> [] | Inr evs \<Rightarrow> evs)"

definition rowErrors ::
  "((string \<rightharpoonup> string) \<Rightarrow> string + event list) \<Rightarrow> nat \<Rightarrow> (string \<rightharpoonup> string) list \<Rightarrow> (nat \<times> string) list" where
  "rowErrors body idx rows =
     concat (map (\<lambda>(i, row). case body row of Inl msg \<Rightarrow> [(i + 1, msg)] | Inr evs \<Rightarrow> [])
               (enumerate idx rows))"

text \<open>The days of a row, and the event the row body builds for one of them.\<close>

definition rowOccurrences ::
  "(string \<Rightarrow> int option) \<Rightarrow> (string \<rightharpoonup> string) \<Rightarrow> (string \<rightharpoonup> string) \<Rightarrow> int list" where
  "rowOccurrences dateOfText mapped row =
     expandOccurrences (parseDate dateOfText (cellAt row (mapped ''startDateField'')))
       (parseDate dateOfText (cellAt row (mapped ''endDateField'')))
       (parseDays (cellAt row (mapped ''daysField'')))"

definition eventOn ::
  "(string \<rightharpoonup> string) \<Rightarrow> string \<Rightarrow> (string \<rightharpoonup> string) \<Rightarrow> timeOfDay \<Rightarrow> timeOfDay \<Rightarrow> int \<Rightarrow> event" where
  "eventOn mapped titleTemplate row startTime endTime d =
     \<lparr>summary = buildTitle mapped titleTemplate row,
      location = (if truthy (mapped ''locationField'')
                  then trimmedText (cellAt row (mapped ''locationField'')) else []),
      description = (if truthy (mapped ''descField'')
                     then trimmedText (cellAt row (mapped ''descField'')) else []),
      dtStart = combineDateTime d startTime,
      dtEnd = combineDateTime d endTime\<rparr>"

subsection \<open>Templates, for the statements about the title\<close>

text \<open>
  Written from the specification's words, to compare with \<open>buildTitle\<close>: a template made
  of plain text and of the three tokens, and the substitution of each token on its own
  ("applied independently, not recursively"), one pass over the segments.
\<close>

datatype token = Course | Component | Section













subsection \<open>A sample run\<close>

text \<open>
  A runtime whose \<^verbatim>\<open>new Date(s)\<close> reads no text (so the eight-digit pattern decides), a
  mapping with every required key, a row for a course meeting on Mondays, Wednesdays and
  Fridays from 2025-01-06 to 2025-01-17, and a state whose first row has the days
  pattern "Xyz".
\<close>

definition exampleRuntime :: runtime where
  "exampleRuntime = \<lparr>rt_dateOfText = (\<lambda>s. None), rt_now = 1762160400, rt_rnd = (\<lambda>k. ''k'' @ decimal k)\<rparr>"

definition exampleMapping :: "string \<rightharpoonup> string" where
  "exampleMapping =
     [''startDateField'' \<mapsto> ''Start Date'', ''endDateField'' \<mapsto> ''End Date'',
      ''startTimeField'' \<mapsto> ''Start Time'', ''endTimeField'' \<mapsto> ''End Time'',
      ''daysField'' \<mapsto> ''Days'', ''courseField'' \<mapsto> ''Course'',
      ''componentField'' \<mapsto> ''Component'', ''sectionField'' \<mapsto> ''Section'',
      ''titleField'' \<mapsto> [], ''locationField'' \<mapsto> []]"

definition exampleRow :: "string \<rightharpoonup> string" where
  "exampleRow =
     [''Start Date'' \<mapsto> ''20250106'', ''End Date'' \<mapsto> ''20250117'',
      ''Start Time'' \<mapsto> ''10:00 AM'', ''End Time'' \<mapsto> ''10:50 AM'',
      ''Days'' \<mapsto> ''MWF'', ''Course'' \<mapsto> ''CS 101'',
      ''Component'' \<mapsto> ''LEC'', ''Section'' \<mapsto> ''001'']"

definition exampleState :: uiState where
  "exampleState =
     \<lparr>st_rows = [exampleRow(''Days'' \<mapsto> ''Xyz''), exampleRow],
      st_mapped = exampleMapping,
      st_titleTemplate = ''{Course} {Component} {Section}'',
      st_calendarName = ''Workday Schedule'',
      st_timezone = ''America/Vancouver''\<rparr>"

section \<open>Properties\<close>

subsection \<open>Escaping\<close>

lemma replaceEach_Nil: "replaceEach P f [] = []"
  by (simp add: replaceEach_def)

lemma replaceEach_Cons:
  "replaceEach P f (c # cs) = (if P c then f c else [c]) @ replaceEach P f cs"
  by (simp add: replaceEach_def)

lemma replaceEach_append:
  "replaceEach P f (xs @ ys) = replaceEach P f xs @ replaceEach P f ys"
  by (simp add: replaceEach_def)

lemma icsEscape_Nil: "icsEscape [] = []"
  by (simp add: icsEscape_def replaceEach_Nil)

lemma icsEscape_Cons: "icsEscape (c # cs) = escapeUnit c @ icsEscape cs"
  by (simp add: icsEscape_def escapeUnit_def replaceEach_Nil replaceEach_Cons replaceEach_append)

lemma icsUnescape_escapeUnit: "icsUnescape (escapeUnit c @ r) = c # icsUnescape r"
  by (cases r) (auto simp: escapeUnit_def)

lemma icsUnescape_icsEscape: "icsUnescape (icsEscape s) = s"
  by (induction s) (simp_all add: icsEscape_Nil icsEscape_Cons icsUnescape_escapeUnit)

text \<open>
  Claim C4. Escaping a text and then un-escaping it gives the text back, whatever code
  units it holds (backslashes, commas, semicolons and newlines among them); so
  \<open>icsEscape\<close> has a left inverse and is injective.
\<close>

theorem icsEscape_roundtrip:
  "icsUnescape (icsEscape s) = s \<and> inj icsEscape"
proof
  show "icsUnescape (icsEscape s) = s"
    by (rule icsUnescape_icsEscape)
  show "inj icsEscape"
    by (rule inj_on_inverseI [where g = icsUnescape]) (rule icsUnescape_icsEscape)
qed

subsection \<open>The recurrence expander\<close>






subsection \<open>The time parser\<close>

lemma of_char_digitChar: "d < 10 \<Longrightarrow> (of_char (digitChar d) :: nat) = 48 + d"
  by (simp add: digitChar_def)

lemma isDigit_digitChar: "d < 10 \<Longrightarrow> isDigit (digitChar d)"
  by (simp add: isDigit_def of_char_digitChar)

lemma digitVal_digitChar: "d < 10 \<Longrightarrow> digitVal (digitChar d) = d"
  by (simp add: digitVal_def of_char_digitChar)

lemma not_isSpace_digitChar: "d < 10 \<Longrightarrow> \<not> isSpace (digitChar d)"
  by (simp add: isSpace_def of_char_digitChar)

lemma not_isLowerAZ_digitChar: "d < 10 \<Longrightarrow> \<not> isLowerAZ (digitChar d)"
  by (simp add: isLowerAZ_def of_char_digitChar)

lemma decimal_lt10: "n < 10 \<Longrightarrow> decimal n = [digitChar n]"
  by (subst decimal.simps) simp

lemma decimal_small:
  "h < 100 \<Longrightarrow> decimal h = (if h < 10 then [digitChar h] else [digitChar (h div 10), digitChar (h mod 10)])"
  by (subst decimal.simps) (simp add: decimal_lt10)

lemma numberOf_two: "numberOf [a, b] = 10 * digitVal a + digitVal b"
  by (simp add: numberOf_def)

lemma numberOf_one: "numberOf [a] = digitVal a"
  by (simp add: numberOf_def)

lemma numberOf_decimal: "h < 100 \<Longrightarrow> numberOf (decimal h) = h"
  by (simp add: decimal_small numberOf_one numberOf_two digitVal_digitChar)

lemma trim_id: "s \<noteq> [] \<Longrightarrow> \<not> isSpace (hd s) \<Longrightarrow> \<not> isSpace (last s) \<Longrightarrow> trim s = s"
proof -
  assume a: "s \<noteq> []" "\<not> isSpace (hd s)" "\<not> isSpace (last s)"
  have "dropWhile isSpace s = s"
    using a by (simp add: dropWhile_eq_self_iff)
  moreover have "dropWhile isSpace (rev s) = rev s"
    using a by (simp add: dropWhile_eq_self_iff hd_rev)
  ultimately show ?thesis by (simp add: trim_def)
qed

lemma toUpperCase_id: "\<forall>c\<in>set s. \<not> isLowerAZ c \<Longrightarrow> toUpperCase s = s"
  by (simp add: toUpperCase_def upperChar_def map_idI)

lemma leadDigits12_decimal:
  "h < 100 \<Longrightarrow> r = [] \<or> \<not> isDigit (hd r) \<Longrightarrow> leadDigits12 (decimal h @ r) = Some (decimal h, r)"
  by (cases r) (auto simp: decimal_small leadDigits12_def isDigit_digitChar)

lemma colonDigits2_some:
  "a < 10 \<Longrightarrow> b < 10 \<Longrightarrow>
   colonDigits2 (CHR '':'' # digitChar a # digitChar b # r) = (Some [digitChar a, digitChar b], r)"
  by (simp add: colonDigits2_def isDigit_digitChar)

lemma colonDigits2_none: "s = [] \<or> hd s \<noteq> CHR '':'' \<Longrightarrow> colonDigits2 s = (None, s)"
  by (auto simp: colonDigits2_def split: list.splits)


lemma twoDigits_props:
  assumes "m < 100"
  shows "numberOf (twoDigits m) = m"
    and "colonDigits2 (CHR '':'' # twoDigits m @ r) = (Some (twoDigits m), r)"
    and "\<forall>c\<in>set (twoDigits m). \<not> isLowerAZ c"
    and "\<not> isSpace (last (twoDigits m))"
  using assms
  by (simp_all add: twoDigits_def numberOf_two digitVal_digitChar colonDigits2_some
        not_isLowerAZ_digitChar not_isSpace_digitChar)

lemma decimal_props:
  assumes "h < 100"
  shows "decimal h \<noteq> []"
    and "\<not> isSpace (hd (decimal h))"
    and "\<not> isSpace (last (decimal h))"
    and "\<forall>c\<in>set (decimal h). \<not> isLowerAZ c"
  using assms
  by (simp_all add: decimal_small not_isSpace_digitChar not_isLowerAZ_digitChar)

lemma suffix_cases:
  assumes "suffix \<in> {[], '' AM'', '' PM''}"
  shows "suffix = [] \<or> hd suffix \<noteq> CHR '':''"
    and "suffix = [] \<or> \<not> isDigit (hd suffix)"
    and "dropWhile isSpace suffix = (if suffix = [] then [] else tl suffix)"
    and "\<forall>c\<in>set suffix. \<not> isLowerAZ c"
    and "suffix \<noteq> [] \<Longrightarrow> \<not> isSpace (last suffix)"
  using assms by (auto simp: isDigit_def isSpace_def isLowerAZ_def)

lemma matchTimeA_hour_minute:
  assumes "h < 100" "m < 100" "suffix \<in> {[], '' AM'', '' PM''}"
  shows "matchTimeA (decimal h @ CHR '':'' # twoDigits m @ suffix) =
           Some (decimal h, Some (twoDigits m), None, meridiemOf suffix)"
proof -
  have 1: "leadDigits12 (decimal h @ CHR '':'' # twoDigits m @ suffix) =
             Some (decimal h, CHR '':'' # twoDigits m @ suffix)"
    using assms(1) by (rule leadDigits12_decimal) (simp add: isDigit_def)
  have 2: "colonDigits2 (CHR '':'' # twoDigits m @ suffix) = (Some (twoDigits m), suffix)"
    using assms(2) by (rule twoDigits_props)
  have 3: "colonDigits2 suffix = (None, suffix)"
    using suffix_cases(1) [OF assms(3)] by (rule colonDigits2_none)
  show ?thesis
    using assms(3) by (auto simp: matchTimeA_def 1 2 3 meridiemOf_def Let_def isSpace_def)
qed

lemma matchTimeA_hour:
  assumes "h < 100" "suffix \<in> {[], '' AM'', '' PM''}"
  shows "matchTimeA (decimal h @ suffix) = Some (decimal h, None, None, meridiemOf suffix)"
proof -
  have 1: "leadDigits12 (decimal h @ suffix) = Some (decimal h, suffix)"
    using assms(1) suffix_cases(2) [OF assms(2)] by (rule leadDigits12_decimal)
  have 3: "colonDigits2 suffix = (None, suffix)"
    using suffix_cases(1) [OF assms(2)] by (rule colonDigits2_none)
  show ?thesis
    using assms(2) by (auto simp: matchTimeA_def 1 3 meridiemOf_def Let_def isSpace_def)
qed

lemma parseTime_matchA:
  assumes "v \<noteq> []" "trim v = v" "toUpperCase v = v" "matchTimeA v = Some (m1, m2, m3, ampm)"
  shows "parseTime (Some v) =
           Some \<lparr>tm_h = hourOf (numberOf m1) ampm, tm_min = numberOr0 m2, tm_sec = numberOr0 m3\<rparr>"
  using assms by (simp add: parseTime_def hourOf_def Let_def)

lemma parseTime_hour_minute:
  assumes "h < 100" "m < 100" "suffix \<in> {[], '' AM'', '' PM''}"
  shows "parseTime (Some (decimal h @ CHR '':'' # twoDigits m @ suffix)) =
           Some \<lparr>tm_h = hourOf h (meridiemOf suffix), tm_min = m, tm_sec = 0\<rparr>"
proof -
  let ?v = "decimal h @ CHR '':'' # twoDigits m @ suffix"
  have ne: "?v \<noteq> []" by simp
  have "\<not> isSpace (last ?v)"
    using twoDigits_props(4) [OF assms(2)] suffix_cases(5) [OF assms(3)]
    by (cases "suffix = []") (simp_all add: twoDigits_def)
  moreover have "\<not> isSpace (hd ?v)"
    using decimal_props(1,2) [OF assms(1)] by simp
  ultimately have tr: "trim ?v = ?v"
    using ne by (intro trim_id)
  have up: "toUpperCase ?v = ?v"
    using decimal_props(4) [OF assms(1)] twoDigits_props(3) [OF assms(2)] suffix_cases(4) [OF assms(3)]
    by (intro toUpperCase_id) (auto simp: isLowerAZ_def)
  show ?thesis
    using parseTime_matchA [OF ne tr up matchTimeA_hour_minute [OF assms]]
    by (simp add: numberOf_decimal [OF assms(1)] twoDigits_props(1) [OF assms(2)] numberOr0_def)
qed

lemma parseTime_hour:
  assumes "h < 100" "suffix \<in> {[], '' AM'', '' PM''}"
  shows "parseTime (Some (decimal h @ suffix)) =
           Some \<lparr>tm_h = hourOf h (meridiemOf suffix), tm_min = 0, tm_sec = 0\<rparr>"
proof -
  let ?v = "decimal h @ suffix"
  have ne: "?v \<noteq> []" using decimal_props(1) [OF assms(1)] by simp
  have "\<not> isSpace (last ?v)"
    using decimal_props(1,3) [OF assms(1)] suffix_cases(5) [OF assms(2)]
    by (cases "suffix = []") simp_all
  moreover have "\<not> isSpace (hd ?v)"
    using decimal_props(1,2) [OF assms(1)] by simp
  ultimately have tr: "trim ?v = ?v"
    using ne by (intro trim_id)
  have up: "toUpperCase ?v = ?v"
    using decimal_props(4) [OF assms(1)] suffix_cases(4) [OF assms(2)]
    by (intro toUpperCase_id) auto
  show ?thesis
    using parseTime_matchA [OF ne tr up matchTimeA_hour [OF assms]]
    by (simp add: numberOf_decimal [OF assms(1)] numberOr0_def)
qed


lemma matchTimeA_hour_minute_second:
  assumes "h < 100" "m < 100" "s < 100" "suffix \<in> {[], '' AM'', '' PM''}"
  shows "matchTimeA (decimal h @ CHR '':'' # twoDigits m @ CHR '':'' # twoDigits s @ suffix) =
           Some (decimal h, Some (twoDigits m), Some (twoDigits s), meridiemOf suffix)"
proof -
  have 1: "leadDigits12 (decimal h @ CHR '':'' # twoDigits m @ CHR '':'' # twoDigits s @ suffix) =
             Some (decimal h, CHR '':'' # twoDigits m @ CHR '':'' # twoDigits s @ suffix)"
    using assms(1) by (rule leadDigits12_decimal) (simp add: isDigit_def)
  have 2: "colonDigits2 (CHR '':'' # twoDigits m @ CHR '':'' # twoDigits s @ suffix) =
             (Some (twoDigits m), CHR '':'' # twoDigits s @ suffix)"
    using assms(2) by (rule twoDigits_props)
  have 3: "colonDigits2 (CHR '':'' # twoDigits s @ suffix) = (Some (twoDigits s), suffix)"
    using assms(3) by (rule twoDigits_props)
  show ?thesis
    using assms(4) by (auto simp: matchTimeA_def 1 2 3 meridiemOf_def Let_def isSpace_def)
qed

lemma parseTime_hour_minute_second:
  assumes "h < 100" "m < 100" "s < 100" "suffix \<in> {[], '' AM'', '' PM''}"
  shows "parseTime (Some (decimal h @ CHR '':'' # twoDigits m @ CHR '':'' # twoDigits s @ suffix)) =
           Some \<lparr>tm_h = hourOf h (meridiemOf suffix), tm_min = m, tm_sec = s\<rparr>"
proof -
  let ?v = "decimal h @ CHR '':'' # twoDigits m @ CHR '':'' # twoDigits s @ suffix"
  have ne: "?v \<noteq> []" by simp
  have "\<not> isSpace (last ?v)"
    using twoDigits_props(4) [OF assms(3)] suffix_cases(5) [OF assms(4)]
    by (cases "suffix = []") (simp_all add: twoDigits_def)
  moreover have "\<not> isSpace (hd ?v)"
    using decimal_props(1,2) [OF assms(1)] by simp
  ultimately have tr: "trim ?v = ?v"
    using ne by (intro trim_id)
  have up: "toUpperCase ?v = ?v"
    using decimal_props(4) [OF assms(1)] twoDigits_props(3) [OF assms(2)]
      twoDigits_props(3) [OF assms(3)] suffix_cases(4) [OF assms(4)]
    by (intro toUpperCase_id) (auto simp: isLowerAZ_def)
  show ?thesis
    using parseTime_matchA [OF ne tr up matchTimeA_hour_minute_second [OF assms]]
    by (simp add: numberOf_decimal [OF assms(1)] twoDigits_props(1) [OF assms(2)]
          twoDigits_props(1) [OF assms(3)] numberOr0_def)
qed

text \<open>
  Claim C5. The 12-hour correction is applied exactly when a meridiem suffix is present:
  for an hour text of one or two digits holding \<open>h\<close>, alone or followed by a minutes
  field or by a minutes and a seconds field, the suffix AM gives hour 0 for 12 and \<open>h\<close> otherwise, the suffix PM gives \<open>h + 12\<close> below
  12 and \<open>h\<close> otherwise, and no suffix gives \<open>h\<close> itself. In particular "8:00 AM" is
  (8,0,0), "8 PM" is (20,0,0), "20:30" is (20,30,0), "12:00 AM" is (0,0,0) and "12:00 PM"
  is (12,0,0).
\<close>

theorem parseTime_meridiem:
  "(h < 100 \<and> m < 100 \<longrightarrow>
      parseTime (Some (decimal h @ '':'' @ twoDigits m @ '' AM'')) =
        Some \<lparr>tm_h = (if h = 12 then 0 else h), tm_min = m, tm_sec = 0\<rparr> \<and>
      parseTime (Some (decimal h @ '':'' @ twoDigits m @ '' PM'')) =
        Some \<lparr>tm_h = (if h < 12 then h + 12 else h), tm_min = m, tm_sec = 0\<rparr> \<and>
      parseTime (Some (decimal h @ '':'' @ twoDigits m)) =
        Some \<lparr>tm_h = h, tm_min = m, tm_sec = 0\<rparr> \<and>
      parseTime (Some (decimal h @ '' AM'')) =
        Some \<lparr>tm_h = (if h = 12 then 0 else h), tm_min = 0, tm_sec = 0\<rparr> \<and>
      parseTime (Some (decimal h @ '' PM'')) =
        Some \<lparr>tm_h = (if h < 12 then h + 12 else h), tm_min = 0, tm_sec = 0\<rparr> \<and>
      parseTime (Some (decimal h)) = Some \<lparr>tm_h = h, tm_min = 0, tm_sec = 0\<rparr>) \<and>
   (h < 100 \<and> m < 100 \<and> s < 100 \<longrightarrow>
      parseTime (Some (decimal h @ '':'' @ twoDigits m @ '':'' @ twoDigits s @ '' AM'')) =
        Some \<lparr>tm_h = (if h = 12 then 0 else h), tm_min = m, tm_sec = s\<rparr> \<and>
      parseTime (Some (decimal h @ '':'' @ twoDigits m @ '':'' @ twoDigits s @ '' PM'')) =
        Some \<lparr>tm_h = (if h < 12 then h + 12 else h), tm_min = m, tm_sec = s\<rparr> \<and>
      parseTime (Some (decimal h @ '':'' @ twoDigits m @ '':'' @ twoDigits s)) =
        Some \<lparr>tm_h = h, tm_min = m, tm_sec = s\<rparr>) \<and>
   parseTime (Some ''8:00 AM'') = Some \<lparr>tm_h = 8, tm_min = 0, tm_sec = 0\<rparr> \<and>
   parseTime (Some ''8 PM'') = Some \<lparr>tm_h = 20, tm_min = 0, tm_sec = 0\<rparr> \<and>
   parseTime (Some ''20:30'') = Some \<lparr>tm_h = 20, tm_min = 30, tm_sec = 0\<rparr> \<and>
   parseTime (Some ''12:00 AM'') = Some \<lparr>tm_h = 0, tm_min = 0, tm_sec = 0\<rparr> \<and>
   parseTime (Some ''12:00 PM'') = Some \<lparr>tm_h = 12, tm_min = 0, tm_sec = 0\<rparr>"
proof (intro conjI impI)
  assume hm: "h < 100 \<and> m < 100"
  then have h: "h < 100" and m: "m < 100" by simp_all
  show "parseTime (Some (decimal h @ '':'' @ twoDigits m @ '' AM'')) =
        Some \<lparr>tm_h = (if h = 12 then 0 else h), tm_min = m, tm_sec = 0\<rparr>"
    using parseTime_hour_minute [OF h m, of "'' AM''"] by (simp add: hourOf_def meridiemOf_def)
  show "parseTime (Some (decimal h @ '':'' @ twoDigits m @ '' PM'')) =
        Some \<lparr>tm_h = (if h < 12 then h + 12 else h), tm_min = m, tm_sec = 0\<rparr>"
    using parseTime_hour_minute [OF h m, of "'' PM''"] by (simp add: hourOf_def meridiemOf_def)
  show "parseTime (Some (decimal h @ '':'' @ twoDigits m)) =
        Some \<lparr>tm_h = h, tm_min = m, tm_sec = 0\<rparr>"
    using parseTime_hour_minute [OF h m, of "[]"] by (simp add: hourOf_def meridiemOf_def)
  show "parseTime (Some (decimal h @ '' AM'')) =
        Some \<lparr>tm_h = (if h = 12 then 0 else h), tm_min = 0, tm_sec = 0\<rparr>"
    using parseTime_hour [OF h, of "'' AM''"] by (simp add: hourOf_def meridiemOf_def)
  show "parseTime (Some (decimal h @ '' PM'')) =
        Some \<lparr>tm_h = (if h < 12 then h + 12 else h), tm_min = 0, tm_sec = 0\<rparr>"
    using parseTime_hour [OF h, of "'' PM''"] by (simp add: hourOf_def meridiemOf_def)
  show "parseTime (Some (decimal h)) = Some \<lparr>tm_h = h, tm_min = 0, tm_sec = 0\<rparr>"
    using parseTime_hour [OF h, of "[]"] by (simp add: hourOf_def meridiemOf_def)
next
  assume hms: "h < 100 \<and> m < 100 \<and> s < 100"
  then have h: "h < 100" and m: "m < 100" and s: "s < 100" by simp_all
  show "parseTime (Some (decimal h @ '':'' @ twoDigits m @ '':'' @ twoDigits s @ '' AM'')) =
        Some \<lparr>tm_h = (if h = 12 then 0 else h), tm_min = m, tm_sec = s\<rparr>"
    using parseTime_hour_minute_second [OF h m s, of "'' AM''"]
    by (simp add: hourOf_def meridiemOf_def)
  show "parseTime (Some (decimal h @ '':'' @ twoDigits m @ '':'' @ twoDigits s @ '' PM'')) =
        Some \<lparr>tm_h = (if h < 12 then h + 12 else h), tm_min = m, tm_sec = s\<rparr>"
    using parseTime_hour_minute_second [OF h m s, of "'' PM''"]
    by (simp add: hourOf_def meridiemOf_def)
  show "parseTime (Some (decimal h @ '':'' @ twoDigits m @ '':'' @ twoDigits s)) =
        Some \<lparr>tm_h = h, tm_min = m, tm_sec = s\<rparr>"
    using parseTime_hour_minute_second [OF h m s, of "[]"]
    by (simp add: hourOf_def meridiemOf_def)
next
  show "parseTime (Some ''8:00 AM'') = Some \<lparr>tm_h = 8, tm_min = 0, tm_sec = 0\<rparr>"
    by code_simp
  show "parseTime (Some ''8 PM'') = Some \<lparr>tm_h = 20, tm_min = 0, tm_sec = 0\<rparr>"
    by code_simp
  show "parseTime (Some ''20:30'') = Some \<lparr>tm_h = 20, tm_min = 30, tm_sec = 0\<rparr>"
    by code_simp
  show "parseTime (Some ''12:00 AM'') = Some \<lparr>tm_h = 0, tm_min = 0, tm_sec = 0\<rparr>"
    by code_simp
  show "parseTime (Some ''12:00 PM'') = Some \<lparr>tm_h = 12, tm_min = 0, tm_sec = 0\<rparr>"
    by code_simp
qed

text \<open>
  The theorem at \<open>h = 12, m = 5\<close>, at \<open>h = 7, m = 45\<close> (with and without \<open>s = 30\<close>)
  and at \<open>h = 17, m = 45\<close>.
\<close>

theorem parseTime_meridiem_witness:
  "parseTime (Some ''12:05 AM'') = Some \<lparr>tm_h = 0, tm_min = 5, tm_sec = 0\<rparr> \<and>
   parseTime (Some ''7:45 PM'') = Some \<lparr>tm_h = 19, tm_min = 45, tm_sec = 0\<rparr> \<and>
   parseTime (Some ''17:45'') = Some \<lparr>tm_h = 17, tm_min = 45, tm_sec = 0\<rparr> \<and>
   parseTime (Some ''7:45:30 PM'') = Some \<lparr>tm_h = 19, tm_min = 45, tm_sec = 30\<rparr>"
proof -
  have d: "decimal 12 = ''12''" "decimal 7 = ''7''" "decimal 17 = ''17''"
          "twoDigits 5 = ''05''" "twoDigits 45 = ''45''" "twoDigits 30 = ''30''"
    by code_simp+
  have e: "parseTime (Some ''7:45:30 PM'') = Some \<lparr>tm_h = 19, tm_min = 45, tm_sec = 30\<rparr>"
    using parseTime_meridiem [of 7 45 30] by (simp add: d)
  have a: "parseTime (Some ''12:05 AM'') = Some \<lparr>tm_h = 0, tm_min = 5, tm_sec = 0\<rparr>"
    using parseTime_meridiem [of 12 5] by (simp add: d)
  have b: "parseTime (Some ''7:45 PM'') = Some \<lparr>tm_h = 19, tm_min = 45, tm_sec = 0\<rparr>"
    using parseTime_meridiem [of 7 45] by (simp add: d)
  have c: "parseTime (Some ''17:45'') = Some \<lparr>tm_h = 17, tm_min = 45, tm_sec = 0\<rparr>"
    using parseTime_meridiem [of 17 45] by (simp add: d)
  from a b c e show ?thesis by simp
qed

text \<open>The parser checks the shape of the text, not the ranges of its fields.\<close>

lemma digitVal_le9: "isDigit c \<Longrightarrow> digitVal c \<le> 9"
  unfolding isDigit_def digitVal_def by arith

lemma leadDigits12_bound: "leadDigits12 s = Some (m1, r) \<Longrightarrow> numberOf m1 \<le> 99"
  by (auto simp: leadDigits12_def numberOf_one numberOf_two split: list.splits if_splits
           dest!: digitVal_le9)

lemma colonDigits2_bound: "colonDigits2 s = (m2, r) \<Longrightarrow> numberOr0 m2 \<le> 99"
  by (auto simp: colonDigits2_def numberOr0_def numberOf_two split: list.splits if_splits
           dest!: digitVal_le9)

lemma matchTimeA_bound:
  "matchTimeA s = Some (m1, m2, m3, ampm) \<Longrightarrow>
     numberOf m1 \<le> 99 \<and> numberOr0 m2 \<le> 99 \<and> numberOr0 m3 \<le> 99"
  by (auto simp: matchTimeA_def Let_def split: option.splits prod.splits if_splits
           dest: leadDigits12_bound colonDigits2_bound)

lemma matchTimeB_bound:
  "matchTimeB s = Some (m1, m2, m3) \<Longrightarrow>
     numberOf m1 \<le> 99 \<and> numberOf m2 \<le> 99 \<and> numberOr0 m3 \<le> 99"
  by (auto simp: matchTimeB_def numberOr0_def split: option.splits prod.splits if_splits
           dest: leadDigits12_bound colonDigits2_bound)

text \<open>
  A minutes or a seconds field of the result that is not 0 was read from a field of the
  text, which a colon starts.
\<close>

lemma leadDigits12_split: "leadDigits12 s = Some (m1, r) \<Longrightarrow> s = m1 @ r"
  by (auto simp: leadDigits12_def split: list.splits if_splits)

lemma colonDigits2_split: "colonDigits2 s = (Some d, r) \<Longrightarrow> s = CHR '':'' # d @ r"
  by (auto simp: colonDigits2_def split: list.splits if_splits)

lemma colonDigits2_rest: "colonDigits2 s = (None, r) \<Longrightarrow> r = s"
  by (auto simp: colonDigits2_def split: list.splits if_splits)

lemma colonDigits2_idem: "colonDigits2 s = (None, r) \<Longrightarrow> colonDigits2 r = (None, r)"
  by (frule colonDigits2_rest) simp

lemma matchTimeA_colons:
  assumes "matchTimeA s = Some (m1, m2, m3, ampm)"
  shows "(m2 \<noteq> None \<longrightarrow> 1 \<le> count_list s (CHR '':'')) \<and>
         (m3 \<noteq> None \<longrightarrow> 2 \<le> count_list s (CHR '':''))"
proof -
  from assms obtain r1 r2 r3 where
    1: "leadDigits12 s = Some (m1, r1)" and 2: "colonDigits2 r1 = (m2, r2)"
    and 3: "colonDigits2 r2 = (m3, r3)"
    by (auto simp: matchTimeA_def Let_def split: option.splits prod.splits if_splits)
  have s: "s = m1 @ r1" using 1 by (rule leadDigits12_split)
  show ?thesis
  proof (cases m2)
    case None
    with 2 have "colonDigits2 r2 = (None, r2)" by (simp add: colonDigits2_idem)
    with 3 None show ?thesis by simp
  next
    case (Some d2)
    with 2 have r1: "r1 = CHR '':'' # d2 @ r2" by (simp add: colonDigits2_split)
    show ?thesis
    proof (cases m3)
      case None
      then show ?thesis using Some by (simp add: s r1)
    next
      case (Some d3)
      with 3 have "r2 = CHR '':'' # d3 @ r3" by (simp add: colonDigits2_split)
      then show ?thesis by (simp add: s r1)
    qed
  qed
qed

lemma matchTimeB_colons:
  assumes "matchTimeB s = Some (m1, m2, m3)"
  shows "1 \<le> count_list s (CHR '':'') \<and> (m3 \<noteq> None \<longrightarrow> 2 \<le> count_list s (CHR '':''))"
proof -
  from assms obtain r1 r2 r3 where
    1: "leadDigits12 s = Some (m1, r1)" and 2: "colonDigits2 r1 = (Some m2, r2)"
    and 3: "colonDigits2 r2 = (m3, r3)"
    by (auto simp: matchTimeB_def split: option.splits prod.splits if_splits)
  have s: "s = m1 @ r1" using 1 by (rule leadDigits12_split)
  have r1: "r1 = CHR '':'' # m2 @ r2" using 2 by (rule colonDigits2_split)
  show ?thesis
  proof (cases m3)
    case None
    then show ?thesis by (simp add: s r1)
  next
    case (Some d3)
    with 3 have "r2 = CHR '':'' # d3 @ r3" by (simp add: colonDigits2_split)
    then show ?thesis by (simp add: s r1)
  qed
qed

lemma count_list_dropWhile: "count_list (dropWhile P xs) x \<le> count_list xs x"
  by (induction xs) auto

lemma count_list_rev': "count_list (rev xs) x = count_list xs x"
  by (induction xs) auto

lemma count_list_trim: "count_list (trim s) x \<le> count_list s x"
proof -
  have "count_list (trim s) x = count_list (dropWhile isSpace (rev (dropWhile isSpace s))) x"
    by (simp add: trim_def count_list_rev')
  also have "\<dots> \<le> count_list (rev (dropWhile isSpace s)) x"
    by (rule count_list_dropWhile)
  also have "\<dots> \<le> count_list s x"
    by (simp add: count_list_rev' count_list_dropWhile)
  finally show ?thesis .
qed

lemma upperChar_colon: "(upperChar c = CHR '':'') = (c = CHR '':'')"
proof (cases "isLowerAZ c")
  case True
  have code: "(of_char (upperChar c) :: nat) = (of_char c - 32) mod 256"
    using True by (simp add: upperChar_def)
  have small: "((of_char c :: nat) - 32) mod 256 = of_char c - 32"
    using True unfolding isLowerAZ_def by (intro mod_less) arith
  have ne: "(of_char c :: nat) - 32 \<noteq> 58"
    using True unfolding isLowerAZ_def by arith
  from code small ne have "(of_char (upperChar c) :: nat) \<noteq> of_char (CHR '':'')"
    by simp
  then have "upperChar c \<noteq> CHR '':''"
    by metis
  moreover have "c \<noteq> CHR '':''"
    using True by (auto simp: isLowerAZ_def)
  ultimately show ?thesis by simp
next
  case False
  then show ?thesis by (simp add: upperChar_def)
qed

lemma count_list_toUpperCase: "count_list (toUpperCase s) (CHR '':'') = count_list s (CHR '':'')"
  by (induction s) (simp_all add: toUpperCase_def upperChar_colon)

lemma parseTime_defaults:
  assumes "parseTime (Some v) = Some t"
  shows "(CHR '':'' \<notin> set v \<longrightarrow> tm_min t = 0) \<and> (count_list v (CHR '':'') < 2 \<longrightarrow> tm_sec t = 0)"
proof -
  let ?s = "toUpperCase (trim v)"
  have le: "count_list ?s (CHR '':'') \<le> count_list v (CHR '':'')"
    by (simp add: count_list_toUpperCase count_list_trim)
  have zero: "CHR '':'' \<notin> set v \<Longrightarrow> count_list v (CHR '':'') = 0"
    by (simp add: count_list_0_iff)
  show ?thesis
  proof (cases "matchTimeA ?s")
    case (Some m)
    obtain m1 m2 m3 ampm where m: "m = (m1, m2, m3, ampm)" by (cases m) auto
    from assms Some m have t: "tm_min t = numberOr0 m2" "tm_sec t = numberOr0 m3"
      by (auto simp: parseTime_def Let_def split: if_splits)
    from matchTimeA_colons [of ?s m1 m2 m3 ampm] Some m le zero show ?thesis
      by (cases m2; cases m3) (auto simp: t numberOr0_def)
  next
    case None
    with assms obtain m1 m2 m3 where B: "matchTimeB ?s = Some (m1, m2, m3)"
      and t: "tm_sec t = numberOr0 m3"
      by (auto simp: parseTime_def Let_def split: if_splits option.splits)
    from matchTimeB_colons [OF B] le zero show ?thesis
      by (cases m3) (auto simp: t numberOr0_def)
  qed
qed

text \<open>
  Claim C10, as the code has it. Every time the parser returns has an hour, a minute and a
  second between 0 and 99: each field is the number of one or two digits (the hour after
  the 12-hour correction) and no range is checked. The minute is 0 when the text has no
  colon, the second is 0 when it has fewer than two.
\<close>

theorem parseTime_fields_le_99:
  "parseTime (Some v) = Some t \<Longrightarrow>
     tm_h t \<le> 99 \<and> tm_min t \<le> 99 \<and> tm_sec t \<le> 99 \<and>
     (CHR '':'' \<notin> set v \<longrightarrow> tm_min t = 0) \<and>
     (count_list v (CHR '':'') < 2 \<longrightarrow> tm_sec t = 0)"
proof -
  assume a: "parseTime (Some v) = Some t"
  then have "tm_h t \<le> 99 \<and> tm_min t \<le> 99 \<and> tm_sec t \<le> 99"
    by (auto simp: parseTime_def Let_def split: option.splits if_splits
             dest!: matchTimeA_bound matchTimeB_bound)
  with parseTime_defaults [OF a] show ?thesis by simp
qed

text \<open>
  The theorem at "25:61:99", where all three fields are read from the text, and at "19",
  where the minute and the second are 0 for want of a field.
\<close>

theorem parseTime_fields_le_99_witness:
  "parseTime (Some ''25:61:99'') = Some \<lparr>tm_h = 25, tm_min = 61, tm_sec = 99\<rparr> \<and>
   tm_h \<lparr>tm_h = 25, tm_min = 61, tm_sec = 99\<rparr> \<le> 99 \<and>
   tm_min \<lparr>tm_h = 25, tm_min = 61, tm_sec = 99\<rparr> \<le> 99 \<and>
   tm_sec \<lparr>tm_h = 25, tm_min = 61, tm_sec = 99\<rparr> \<le> 99 \<and>
   CHR '':'' \<notin> set ''19'' \<and> count_list ''19'' (CHR '':'') < 2 \<and>
   parseTime (Some ''19'') = Some \<lparr>tm_h = 19, tm_min = 0, tm_sec = 0\<rparr>"
proof -
  have e: "parseTime (Some ''25:61:99'') = Some \<lparr>tm_h = 25, tm_min = 61, tm_sec = 99\<rparr>"
    by code_simp
  have f: "parseTime (Some ''19'') = Some \<lparr>tm_h = 19, tm_min = 0, tm_sec = 0\<rparr>"
    by code_simp
  from parseTime_fields_le_99 [OF e] parseTime_fields_le_99 [OF f] e f show ?thesis by simp
qed

text \<open>
  Claim C10 as stated fails: the text "25:61:99" is accepted, and its hour, minute and
  second are all outside the ranges of a time of day.
\<close>

theorem parseTime_range_counterexample:
  "parseTime (Some ''25:61:99'') = Some \<lparr>tm_h = 25, tm_min = 61, tm_sec = 99\<rparr> \<and>
   \<not> validTimeOfDay \<lparr>tm_h = 25, tm_min = 61, tm_sec = 99\<rparr>"
proof
  show "parseTime (Some ''25:61:99'') = Some \<lparr>tm_h = 25, tm_min = 61, tm_sec = 99\<rparr>"
    by code_simp
  show "\<not> validTimeOfDay \<lparr>tm_h = 25, tm_min = 61, tm_sec = 99\<rparr>"
    by (simp add: validTimeOfDay_def)
qed

subsection \<open>The weekday-pattern parser\<close>

text \<open>Six of the seven inputs of claim C2 give the set the claim states.\<close>

lemma parseDays_examples:
  "parseDays (Some ''MWF'') = {1, 3, 5} \<and>
   parseDays (Some ''mwf'') = {1, 3, 5} \<and>
   parseDays (Some ''M W F'') = {1, 3, 5} \<and>
   parseDays (Some ''Mon Wed Fri'') = {1, 3, 5} \<and>
   parseDays (Some ''Monday, Wednesday, Friday'') = {1, 3, 5} \<and>
   parseDays (Some ''T R'') = {2, 4}"
  by (intro conjI; code_simp)

text \<open>
  The compact scan knows Tuesday only as \<open>TU\<close>: a \<open>T\<close> before any other letter is passed
  over, so "TTh" (an example of the source's own hint for the days field) gives no day at
  all, and "MTWRF" (an example of the source's comment on the scan) loses its Tuesday.
\<close>

lemma parseDays_single_T:
  "parseDays (Some ''TTh'') = {} \<and> parseDays (Some ''MTWRF'') = {1, 3, 4, 5}"
  by (intro conjI; code_simp)

text \<open>
  Claim C2, at the input "TuTh". No pattern of the table matches the upper-cased text
  \<open>TUTH\<close> (\<^verbatim>\<open>\bTH\b\<close> and \<^verbatim>\<open>\bTU\b\<close> need a word boundary between \<open>U\<close> and \<open>T\<close>), and the
  compact scan reads \<open>TU\<close> as Tuesday, then passes over \<open>T\<close> and \<open>H\<close>: the result is
  Tuesday alone, not Tuesday and Thursday as the claim and the source's own examples
  (\<^verbatim>\<open>e.g., MWF, TuTh, Mon Wed Fri\<close>) have it.
\<close>

theorem parseDays_TuTh:
  "normalizeSeparators (normalizeDayNames (toUpperCase (trim ''TuTh''))) = ''TUTH'' \<and>
   scanCompact ''TUTH'' [] = [''TU''] \<and>
   parseDays (Some ''TuTh'') = {2} \<and>
   parseDays (Some ''TuTh'') \<noteq> {2, 4}"
proof (intro conjI)
  show "normalizeSeparators (normalizeDayNames (toUpperCase (trim ''TuTh''))) = ''TUTH''"
    by code_simp
  show "scanCompact ''TUTH'' [] = [''TU'']"
    by code_simp
  show a: "parseDays (Some ''TuTh'') = {2}"
    by code_simp
  show "parseDays (Some ''TuTh'') \<noteq> {2, 4}"
    unfolding a by simp
qed

subsection \<open>Line folding\<close>

lemma foldChunks_unfold:
  "0 < i \<Longrightarrow> concat (map (drop (Suc 0)) (foldChunks i ln)) = drop i ln"
proof (induction i ln rule: foldChunks.induct)
  case (1 i ln)
  show ?case
  proof (cases "i < length ln")
    case True
    have "take 75 (drop i ln) @ drop (i + 75) ln = drop i ln"
      by (metis add.commute append_take_drop_id drop_drop)
    with True "1.IH" "1.prems" show ?thesis
      by (subst foldChunks.simps) (simp add: Let_def)
  next
    case False
    then show ?thesis
      by (subst foldChunks.simps) simp
  qed
qed

lemma foldLine_unfold: "unfoldLines (foldLine ln) = ln"
proof (cases "length ln \<le> 75")
  case True
  then show ?thesis by (simp add: foldLine_def unfoldLines_def)
next
  case False
  then have "foldChunks 0 ln = take 75 ln # foldChunks 75 ln"
    by (subst foldChunks.simps) (auto simp: Let_def)
  with False show ?thesis
    by (simp add: foldLine_def unfoldLines_def foldChunks_unfold)
qed

lemma foldChunks_length: "l \<in> set (foldChunks i ln) \<Longrightarrow> length l \<le> 76"
proof (induction i ln rule: foldChunks.induct)
  case (1 i ln)
  show ?case
  proof (cases "i < length ln")
    case True
    with "1.prems" have "l = (if i = 0 then take 75 (drop i ln) else SPACE # take 75 (drop i ln)) \<or>
        l \<in> set (foldChunks (i + 75) ln)"
      by (subst (asm) foldChunks.simps) (simp add: Let_def)
    with True "1.IH" show ?thesis by (auto split: if_splits)
  next
    case False
    with "1.prems" show ?thesis
      by (subst (asm) foldChunks.simps) simp
  qed
qed

lemma foldLine_length: "l \<in> set (foldLine ln) \<Longrightarrow> length l \<le> 76"
  by (auto simp: foldLine_def dest: foldChunks_length split: if_splits)

lemma foldChunks_no_newline: "l \<in> set (foldChunks i ln) \<Longrightarrow> NEWLINE \<notin> set ln \<Longrightarrow> NEWLINE \<notin> set l"
proof (induction i ln rule: foldChunks.induct)
  case (1 i ln)
  show ?case
  proof (cases "i < length ln")
    case True
    with "1.prems" have "l = (if i = 0 then take 75 (drop i ln) else SPACE # take 75 (drop i ln)) \<or>
        l \<in> set (foldChunks (i + 75) ln)"
      by (subst (asm) foldChunks.simps) (simp add: Let_def)
    moreover have "set (take 75 (drop i ln)) \<subseteq> set ln"
      by (meson set_take_subset set_drop_subset subset_trans)
    ultimately show ?thesis
      using True "1.IH" "1.prems"(2) by (auto split: if_splits)
  next
    case False
    with "1.prems" show ?thesis
      by (subst (asm) foldChunks.simps) simp
  qed
qed

lemma splitChar_no_sep: "sep \<notin> set l \<Longrightarrow> splitChar sep l = [l]"
  by (induction l) auto

lemma splitChar_append_sep:
  "sep \<notin> set l \<Longrightarrow> splitChar sep (l @ sep # r) = l # splitChar sep r"
  by (induction l) auto

lemma splitChar_joinWith_Cons:
  "\<forall>l\<in>set (x # xs). sep \<notin> set l \<Longrightarrow> splitChar sep (joinWith [sep] (x # xs)) = x # xs"
proof (induction xs arbitrary: x)
  case Nil
  then show ?case by (simp add: splitChar_no_sep)
next
  case (Cons y ys)
  then show ?case by (simp add: splitChar_append_sep)
qed

lemma splitChar_joinWith:
  "ls \<noteq> [] \<Longrightarrow> \<forall>l\<in>set ls. sep \<notin> set l \<Longrightarrow> splitChar sep (joinWith [sep] ls) = ls"
proof -
  assume ne: "ls \<noteq> []" and ns: "\<forall>l\<in>set ls. sep \<notin> set l"
  from ne obtain x xs where "ls = x # xs"
    by (cases ls) auto
  with ns show ?thesis
    using splitChar_joinWith_Cons [of x xs sep] by blast
qed

lemma foldLine_nonempty: "foldLine ln \<noteq> []"
proof (cases "length ln \<le> 75")
  case True
  then show ?thesis by (simp add: foldLine_def)
next
  case False
  then have "foldChunks 0 ln = take 75 ln # foldChunks 75 ln"
    by (subst foldChunks.simps) (auto simp: Let_def)
  with False show ?thesis by (simp add: foldLine_def)
qed

lemma physicalLines_foldLines:
  "NEWLINE \<notin> set ln \<Longrightarrow> physicalLines (foldLines ln) = foldLine ln"
proof -
  assume a: "NEWLINE \<notin> set ln"
  have "\<forall>l\<in>set (foldLine ln). NEWLINE \<notin> set l"
    using a by (auto simp: foldLine_def dest: foldChunks_no_newline split: if_splits)
  then show ?thesis
    using a by (simp add: physicalLines_def foldLines_def splitChar_no_sep splitChar_joinWith foldLine_nonempty)
qed

text \<open>
  For a logical line (a text without a newline), unfolding the physical lines gives the
  line back, and no physical line is longer than 76 code units.
\<close>

lemma foldLines_roundtrip:
  "NEWLINE \<notin> set ln \<Longrightarrow>
     unfoldLines (physicalLines (foldLines ln)) = ln \<and>
     (\<forall>l\<in>set (physicalLines (foldLines ln)). length l \<le> 76)"
  by (simp add: physicalLines_foldLines foldLine_unfold foldLine_length)

text \<open>
  Claim C3, at a line of 150 code units. A continuation line is a space and a chunk of up
  to 75 code units, so the second physical line here has 76 code units: one more than the
  limit of 75 the claim and the source's comment (\<^verbatim>\<open>75 octets per RFC 5545\<close>) state.
\<close>

theorem foldLines_long_line:
  "physicalLines (foldLines (replicate 150 (CHR ''a''))) =
     [replicate 75 (CHR ''a''), SPACE # replicate 75 (CHR ''a'')] \<and>
   map length (physicalLines (foldLines (replicate 150 (CHR ''a'')))) = [75, 76] \<and>
   \<not> withinLimit (physicalLines (foldLines (replicate 150 (CHR ''a''))))"
proof -
  have a: "physicalLines (foldLines (replicate 150 (CHR ''a''))) =
     [replicate 75 (CHR ''a''), SPACE # replicate 75 (CHR ''a'')]"
    by code_simp
  show ?thesis unfolding a by (simp add: withinLimit_def)
qed

subsection \<open>The serializer\<close>

lemma splitChar_not_Nil: "splitChar sep s \<noteq> []"
  by (induction s) (auto split: list.splits)

lemma line_in_splitChar:
  "sep \<notin> set l \<Longrightarrow> l \<in> set (tl (splitChar sep (pre @ sep # l @ sep # post)))"
proof (induction pre)
  case Nil
  then show ?case by (simp add: splitChar_append_sep)
next
  case (Cons c pre)
  then show ?case
    by (cases "splitChar sep (pre @ sep # l @ sep # post)") (auto dest: list.set_sel(2))
qed

lemma newline_notin_icsEscape: "NEWLINE \<notin> set (icsEscape s)"
  by (induction s) (auto simp: icsEscape_Nil icsEscape_Cons escapeUnit_def)

lemma length_icsEscape: "length s \<le> length (icsEscape s)"
  by (induction s) (auto simp: icsEscape_Nil icsEscape_Cons escapeUnit_def)

lemma eventsLoop_append:
  "eventsLoop now rnd k evs ics = ics @ eventsLoop now rnd k evs []"
proof (induction evs arbitrary: k ics)
  case Nil
  show ?case by simp
next
  case (Cons ev evs)
  show ?case
    by (simp, subst Cons.IH, subst (2) Cons.IH, simp)
qed

text \<open>
  The header is never passed to \<open>foldLines\<close>: a calendar name of more than 62 code units
  gives a physical line of more than 75, whatever the events are.
\<close>

lemma buildICS_long_name:
  assumes "62 < length calName"
  shows "\<not> withinLimit (physicalLines (buildICS now rnd events calName tzHint))"
proof -
  let ?l = "''X-WR-CALNAME:'' @ icsEscape calName"
  have ne: "calName \<noteq> []" using assms by auto
  have nl: "NEWLINE \<notin> set ?l"
    using newline_notin_icsEscape [of calName] by simp
  let ?pre = "''BEGIN:VCALENDAR'' @ [NEWLINE] @ ''VERSION:2.0'' @ [NEWLINE] @
      ''CALSCALE:GREGORIAN'' @ [NEWLINE] @ ''PRODID:-//GistTools//Workday Excel to iCal//EN''"
  let ?post = "(if tzHint \<noteq> [] then ''X-WR-TIMEZONE:'' @ icsEscape tzHint @ [NEWLINE] else []) @
      eventsLoop now rnd 0 events [] @ ''END:VCALENDAR'' @ [NEWLINE]"
  have "icsHeader calName tzHint @ eventsLoop now rnd 0 events [] @ ''END:VCALENDAR'' @ [NEWLINE] =
          ?pre @ NEWLINE # ?l @ NEWLINE # ?post"
    using ne by (simp add: icsHeader_def)
  then have "buildICS now rnd events calName tzHint = ?pre @ NEWLINE # ?l @ NEWLINE # ?post"
    unfolding buildICS_def by (subst eventsLoop_append) simp
  then have mem: "?l \<in> set (physicalLines (buildICS now rnd events calName tzHint))"
    using line_in_splitChar [OF nl, of ?pre ?post]
    by (auto simp: physicalLines_def dest: list.set_sel(2) [OF splitChar_not_Nil])
  have "75 < length ?l"
    using assms length_icsEscape [of calName] by simp
  then have "\<not> length ?l \<le> 75" by simp
  with mem have "\<exists>ln\<in>set (physicalLines (buildICS now rnd events calName tzHint)). \<not> length ln \<le> 75"
    by (rule rev_bexI)
  then show ?thesis
    by (simp add: withinLimit_def list_all_iff)
qed

text \<open>
  Claim C6, at a calendar name of 65 code units. The header line \<^verbatim>\<open>X-WR-CALNAME:...\<close>
  is emitted unfolded, so the document has a physical line longer than the limit, for
  every list of events, clock, random source and timezone hint. (The free text is
  escaped everywhere, as the claim says; the event blocks are folded, with the
  76-unit continuation lines of claim C3.)
\<close>

theorem buildICS_header_not_folded:
  "\<not> withinLimit (physicalLines
       (buildICS now rnd events ''Schedule of all lectures, laboratories and tutorials, winter term'' tzHint))"
  by (rule buildICS_long_name) simp

subsection \<open>The driver: required mappings\<close>

lemma find_req:
  assumes "k \<in> set req" "\<not> truthy (mapped k)"
  shows "\<exists>k'\<in>set req. \<not> truthy (mapped k') \<and> find (\<lambda>k. \<not> truthy (mapped k)) req = Some k'"
proof (cases "find (\<lambda>k. \<not> truthy (mapped k)) req")
  case None
  with assms show ?thesis by (auto simp: find_None_iff)
next
  case (Some k')
  then show ?thesis
    by (auto simp: find_Some_iff)
qed

text \<open>
  Claim C7. When a required key \<open>k\<close> of the mapping is unset (missing or empty), the run
  ends with the error message for the first unset required key; the result is the same
  for every list of rows and every runtime, so no row is looked at and no output is made.
\<close>

theorem handleGenerate_missing_mapping:
  assumes "k \<in> set req" "\<not> truthy (st_mapped st k)"
  shows "(\<exists>k'\<in>set req. \<not> truthy (st_mapped st k') \<and>
            handleGenerate rt st = Inl (''Missing required mapping: '' @ labelForKey k')) \<and>
         handleGenerate rt' (st\<lparr>st_rows := rows'\<rparr>) = handleGenerate rt st"
proof -
  from find_req [of k "st_mapped st", OF assms] obtain k' where
    k': "k' \<in> set req" "\<not> truthy (st_mapped st k')"
        "find (\<lambda>k. \<not> truthy (st_mapped st k)) req = Some k'"
    by blast
  then show ?thesis
    by (auto simp: handleGenerate_def)
qed

text \<open>The theorem at the sample state with the end-time mapping removed.\<close>

theorem handleGenerate_missing_mapping_witness:
  "''endTimeField'' \<in> set req \<and>
   \<not> truthy (st_mapped (exampleState\<lparr>st_mapped := exampleMapping(''endTimeField'' := None)\<rparr>) ''endTimeField'') \<and>
   handleGenerate exampleRuntime (exampleState\<lparr>st_mapped := exampleMapping(''endTimeField'' := None)\<rparr>) =
     Inl ''Missing required mapping: End time'' \<and>
   handleGenerate exampleRuntime
     (exampleState\<lparr>st_mapped := exampleMapping(''endTimeField'' := None), st_rows := []\<rparr>) =
     Inl ''Missing required mapping: End time''"
proof -
  let ?st = "exampleState\<lparr>st_mapped := exampleMapping(''endTimeField'' := None)\<rparr>"
  have a: "''endTimeField'' \<in> set req"
    by code_simp
  have b: "\<not> truthy (st_mapped ?st ''endTimeField'')"
    by code_simp
  have c: "handleGenerate exampleRuntime ?st = Inl ''Missing required mapping: End time''"
    by code_simp
  from handleGenerate_missing_mapping [OF a b, where rt = exampleRuntime and rt' = exampleRuntime and rows' = "[]"]
  have "handleGenerate exampleRuntime (?st\<lparr>st_rows := []\<rparr>) = handleGenerate exampleRuntime ?st"
    by simp
  with a b c show ?thesis by simp
qed

subsection \<open>The driver: rows that fail\<close>

lemma processRow_fails:
  "rowFails dateOfText mapped row \<Longrightarrow> processRow dateOfText mapped tmpl row = Inl parseFailure"
  by (auto simp: rowFails_def processRow_def parseFailure_def Let_def split: option.splits)

lemma processRow_ok:
  "\<not> rowFails dateOfText mapped row \<Longrightarrow>
     \<exists>startTime endTime.
        parseTime (cellAt row (mapped ''startTimeField'')) = Some startTime \<and>
        parseTime (cellAt row (mapped ''endTimeField'')) = Some endTime \<and>
        processRow dateOfText mapped tmpl row =
          Inr (map (eventOn mapped tmpl row startTime endTime) (rowOccurrences dateOfText mapped row))"
  by (auto simp: rowFails_def processRow_def rowOccurrences_def eventOn_def Let_def)

lemma rowsLoop_eq:
  "rowsLoop body rows idx events errors =
     (events @ concat (map (rowEvents body) rows), errors @ rowErrors body idx rows)"
proof (induction rows arbitrary: idx events errors)
  case Nil
  show ?case by (simp add: rowErrors_def)
next
  case (Cons row rows)
  show ?case
    by (cases "body row") (simp_all add: Cons.IH rowEvents_def rowErrors_def)
qed

lemma rowErrors_member:
  assumes "i < length rows" "body (rows ! i) = Inl msg"
  shows "(i + 1, msg) \<in> set (rowErrors body 0 rows)"
proof -
  have "(i, rows ! i) \<in> set (enumerate 0 rows)"
    using assms(1) by (simp add: in_set_enumerate_eq)
  then show ?thesis
    using assms(2) by (force simp: rowErrors_def)
qed


text \<open>
  Claim C8. With every required key mapped: a row that fails to parse (a date, a time, or
  an empty weekday set) adds no event and is recorded in \<open>errors\<close> with its position
  counted from 1 and the reason; every other row adds one event for each of its days; the
  events of the run are the events of the rows in row order; and when there is at least
  one event the run succeeds, handing over these events and these errors.
\<close>

theorem handleGenerate_row_failures:
  assumes "list_all (\<lambda>k. truthy (st_mapped st k)) req"
  shows "let body = processRow (rt_dateOfText rt) (st_mapped st) (st_titleTemplate st);
             rows = st_rows st;
             events = concat (map (rowEvents body) rows);
             errors = rowErrors body 0 rows
         in (\<forall>i<length rows. rowFails (rt_dateOfText rt) (st_mapped st) (rows ! i) \<longrightarrow>
                rowEvents body (rows ! i) = [] \<and>
                (i + 1, ''Could not parse one of date, time, or days'') \<in> set errors) \<and>
            (\<forall>i<length rows. \<not> rowFails (rt_dateOfText rt) (st_mapped st) (rows ! i) \<longrightarrow>
                (\<exists>startTime endTime.
                   parseTime (cellAt (rows ! i) (st_mapped st ''startTimeField'')) = Some startTime \<and>
                   parseTime (cellAt (rows ! i) (st_mapped st ''endTimeField'')) = Some endTime \<and>
                   rowEvents body (rows ! i) =
                     map (eventOn (st_mapped st) (st_titleTemplate st) (rows ! i) startTime endTime)
                       (rowOccurrences (rt_dateOfText rt) (st_mapped st) (rows ! i)))) \<and>
            (events \<noteq> [] \<longrightarrow>
               (\<exists>g. handleGenerate rt st = Inr g \<and> g_events g = events \<and> g_errors g = errors)) \<and>
            (events = [] \<longrightarrow>
               handleGenerate rt st = Inl ''No events generated. Check mappings and data.'')"
proof -
  define body where "body = processRow (rt_dateOfText rt) (st_mapped st) (st_titleTemplate st)"
  define rows where "rows = st_rows st"
  define events where "events = concat (map (rowEvents body) rows)"
  define errors where "errors = rowErrors body 0 rows"
  have nf: "find (\<lambda>k. \<not> truthy (st_mapped st k)) req = None"
    using assms by (simp add: find_None_iff list_all_iff)
  have loop: "rowsLoop body rows 0 [] [] = (events, errors)"
    by (simp add: rowsLoop_eq events_def errors_def)
  have 1: "rowEvents body (rows ! i) = [] \<and> (i + 1, ''Could not parse one of date, time, or days'') \<in> set errors"
    if "i < length rows" "rowFails (rt_dateOfText rt) (st_mapped st) (rows ! i)" for i
  proof -
    have b: "body (rows ! i) = Inl ''Could not parse one of date, time, or days''"
      using processRow_fails [OF that(2)] by (simp add: body_def parseFailure_def)
    then show ?thesis
      using rowErrors_member [of i rows body, OF that(1) b] by (simp add: rowEvents_def errors_def)
  qed
  have 2: "\<exists>startTime endTime.
             parseTime (cellAt (rows ! i) (st_mapped st ''startTimeField'')) = Some startTime \<and>
             parseTime (cellAt (rows ! i) (st_mapped st ''endTimeField'')) = Some endTime \<and>
             rowEvents body (rows ! i) =
               map (eventOn (st_mapped st) (st_titleTemplate st) (rows ! i) startTime endTime)
                 (rowOccurrences (rt_dateOfText rt) (st_mapped st) (rows ! i))"
    if "\<not> rowFails (rt_dateOfText rt) (st_mapped st) (rows ! i)" for i
    using processRow_ok [OF that, of "st_titleTemplate st"] by (auto simp: rowEvents_def body_def)
  have 3: "\<exists>g. handleGenerate rt st = Inr g \<and> g_events g = events \<and> g_errors g = errors"
    if "events \<noteq> []"
    using that loop by (simp add: handleGenerate_def nf body_def [symmetric] rows_def [symmetric])
  have 4: "handleGenerate rt st = Inl ''No events generated. Check mappings and data.''"
    if "events = []"
    using that loop by (simp add: handleGenerate_def nf body_def [symmetric] rows_def [symmetric])
  show ?thesis
    unfolding Let_def body_def [symmetric] rows_def [symmetric] events_def [symmetric] errors_def [symmetric]
    using 1 2 3 4 by blast
qed

text \<open>The two rows of the sample state.\<close>

lemma exampleRow_fails:
  "processRow (\<lambda>s. None) exampleMapping ''{Course} {Component} {Section}''
     (exampleRow(''Days'' \<mapsto> ''Xyz'')) = Inl ''Could not parse one of date, time, or days''"
  by code_simp

lemma exampleRow_events:
  "processRow (\<lambda>s. None) exampleMapping ''{Course} {Component} {Section}'' exampleRow =
     Inr (map (\<lambda>d. \<lparr>summary = ''CS 101 LEC 001'', location = [], description = [],
                      dtStart = d * 86400 + 36000, dtEnd = d * 86400 + 39000\<rparr>)
            [20094, 20096, 20098, 20101, 20103, 20105])"
  by code_simp

text \<open>
  The theorem at the sample state: the row with the days pattern "Xyz" is recorded as row
  1, the valid row gives its six events, and the run succeeds.
\<close>

theorem handleGenerate_row_failures_witness:
  "list_all (\<lambda>k. truthy (st_mapped exampleState k)) req \<and>
   rowFails (rt_dateOfText exampleRuntime) exampleMapping (exampleRow(''Days'' \<mapsto> ''Xyz'')) \<and>
   (\<exists>g. handleGenerate exampleRuntime exampleState = Inr g \<and>
        map (\<lambda>ev. (summary ev, dtStart ev div 86400, dtStart ev mod 86400)) (g_events g) =
          map (\<lambda>d. (''CS 101 LEC 001'', d, 36000))
            [20094, 20096, 20098, 20101, 20103, 20105] \<and>
        g_errors g = [(1, ''Could not parse one of date, time, or days'')])"
proof -
  let ?body = "processRow (rt_dateOfText exampleRuntime) (st_mapped exampleState)
                 (st_titleTemplate exampleState)"
  let ?events = "concat (map (rowEvents ?body) (st_rows exampleState))"
  let ?evs = "map (\<lambda>d. \<lparr>summary = ''CS 101 LEC 001'', location = [], description = [],
                      dtStart = d * 86400 + 36000, dtEnd = d * 86400 + 39000\<rparr>)
            [20094, 20096, 20098, 20101, 20103, 20105 :: int]"
  have h: "list_all (\<lambda>k. truthy (st_mapped exampleState k)) req"
    by code_simp
  have f: "rowFails (rt_dateOfText exampleRuntime) exampleMapping (exampleRow(''Days'' \<mapsto> ''Xyz''))"
    by code_simp
  have events: "?events = ?evs"
    by (simp add: exampleState_def exampleRuntime_def rowEvents_def exampleRow_fails exampleRow_events)
  have ev: "map (\<lambda>ev. (summary ev, dtStart ev div 86400, dtStart ev mod 86400)) ?evs =
          map (\<lambda>d. (''CS 101 LEC 001'', d, 36000))
            [20094, 20096, 20098, 20101, 20103, 20105]"
    by simp
  have er: "rowErrors ?body 0 (st_rows exampleState) =
          [(1, ''Could not parse one of date, time, or days'')]"
    by (simp add: exampleState_def exampleRuntime_def rowErrors_def enumerate_simps exampleRow_fails exampleRow_events)
  have ne: "?events \<noteq> []"
    unfolding events by simp
  from handleGenerate_row_failures [OF h, of exampleRuntime] ne
  obtain g where "handleGenerate exampleRuntime exampleState = Inr g"
    "g_events g = ?events" "g_errors g = rowErrors ?body 0 (st_rows exampleState)"
    unfolding Let_def by blast
  with ev er events have "\<exists>g. handleGenerate exampleRuntime exampleState = Inr g \<and>
        map (\<lambda>ev. (summary ev, dtStart ev div 86400, dtStart ev mod 86400)) (g_events g) =
          map (\<lambda>d. (''CS 101 LEC 001'', d, 36000))
            [20094, 20096, 20098, 20101, 20103, 20105] \<and>
        g_errors g = [(1, ''Could not parse one of date, time, or days'')]"
    by simp
  with h f show ?thesis by blast
qed

subsection \<open>The title\<close>















end
